theory Spec2Isabelle
  imports Main "HOL-Library.Sublist"
begin

section \<open>Python values\<close>

text \<open>
  The handlers of \<^verbatim>\<open>fabric.py\<close> build and return Python dictionaries and inspect
  what \<^verbatim>\<open>resp.json()\<close> decoded. A dictionary is an association list in insertion order,
  as Python keeps it. Numbers with a fractional part are outside the model: no handler
  computes with a number.
\<close>

datatype pyval =
    PNone
  | PBool bool
  | PInt int
  | PStr string
  | PList "pyval list"
  | PDict "(pyval \<times> pyval) list"

datatype error =
    RuntimeError string
  | HTTPError string
  | JSONDecodeError
  | AttributeError
  | KeyError string
  | TypeError
  | InvalidHeader
  | ValueError
  | ConnectionError

text \<open>Python truthiness, as tested by \<^verbatim>\<open>if not token\<close>.\<close>

fun truthy :: "pyval \<Rightarrow> bool" where
  "truthy PNone = False"
| "truthy (PBool b) = b"
| "truthy (PInt n) = (n \<noteq> 0)"
| "truthy (PStr s) = (s \<noteq> [])"
| "truthy (PList xs) = (xs \<noteq> [])"
| "truthy (PDict kvs) = (kvs \<noteq> [])"

text \<open>Lists and dictionaries cannot be dictionary keys.\<close>

fun hashable :: "pyval \<Rightarrow> bool" where
  "hashable (PList xs) = False"
| "hashable (PDict kvs) = False"
| "hashable v = True"

text \<open>Equality of dictionary keys: \<^verbatim>\<open>True == 1\<close> and \<^verbatim>\<open>False == 0\<close> in Python.\<close>

fun num_view :: "pyval \<Rightarrow> int option" where
  "num_view (PBool b) = Some (if b then 1 else 0)"
| "num_view (PInt n) = Some n"
| "num_view v = None"

definition key_eq :: "pyval \<Rightarrow> pyval \<Rightarrow> bool" where
  "key_eq x y =
     (case (num_view x, num_view y) of
        (Some a, Some b) \<Rightarrow> a = b
      | _ \<Rightarrow> x = y)"

text \<open>
  \<^verbatim>\<open>d[k] = v\<close>: an existing key keeps its place (and its key object) and takes the new
  value; a new key goes to the end.
\<close>

fun dict_set :: "pyval \<Rightarrow> pyval \<Rightarrow> (pyval \<times> pyval) list \<Rightarrow> (pyval \<times> pyval) list" where
  "dict_set k v [] = [(k, v)]"
| "dict_set k v (p # ps) =
     (if key_eq (fst p) k then (fst p, v) # ps else p # dict_set k v ps)"

text \<open>\<^verbatim>\<open>d.get(k, default)\<close> for a string key; only a dictionary has \<^verbatim>\<open>.get\<close>.\<close>

definition py_get :: "pyval \<Rightarrow> string \<Rightarrow> pyval \<Rightarrow> error + pyval" where
  "py_get d k dflt =
     (case d of
        PDict kvs \<Rightarrow> Inr (case map_of kvs (PStr k) of None \<Rightarrow> dflt | Some v \<Rightarrow> v)
      | _ \<Rightarrow> Inl AttributeError)"

text \<open>
  \<^verbatim>\<open>x[k]\<close> for a string key: a dictionary raises KeyError on a missing key, every
  other value raises TypeError (not subscriptable, or indices must be integers).
\<close>

definition py_getitem :: "pyval \<Rightarrow> string \<Rightarrow> error + pyval" where
  "py_getitem x k =
     (case x of
        PDict kvs \<Rightarrow> (case map_of kvs (PStr k) of None \<Rightarrow> Inl (KeyError k) | Some v \<Rightarrow> Inr v)
      | _ \<Rightarrow> Inl TypeError)"

text \<open>
  \<^verbatim>\<open>for x in v\<close>: a list gives its elements, a dictionary its keys, a string its
  characters; nothing else is iterable.
\<close>

fun py_iter :: "pyval \<Rightarrow> error + pyval list" where
  "py_iter (PList xs) = Inr xs"
| "py_iter (PDict kvs) = Inr (map fst kvs)"
| "py_iter (PStr s) = Inr (map (\<lambda>c. PStr [c]) s)"
| "py_iter v = Inl TypeError"

text \<open>
  The comprehension \<^verbatim>\<open>{x[kf]: x[vf] for x in xs}\<close>: for each element the key
  expression is evaluated, then the value expression, then the pair is stored.
\<close>

fun dict_comp :: "string \<Rightarrow> string \<Rightarrow> pyval list \<Rightarrow> (pyval \<times> pyval) list
    \<Rightarrow> error + (pyval \<times> pyval) list" where
  "dict_comp kf vf [] acc = Inr acc"
| "dict_comp kf vf (x # xs) acc =
     (case py_getitem x kf of
        Inl e \<Rightarrow> Inl e
      | Inr k \<Rightarrow>
          (case py_getitem x vf of
             Inl e \<Rightarrow> Inl e
           | Inr v \<Rightarrow>
               if hashable k then dict_comp kf vf xs (dict_set k v acc)
               else Inl TypeError))"

text \<open>\<^verbatim>\<open>len(x)\<close>.\<close>

fun py_len :: "pyval \<Rightarrow> error + int" where
  "py_len (PStr s) = Inr (int (length s))"
| "py_len (PList xs) = Inr (int (length xs))"
| "py_len (PDict kvs) = Inr (int (length kvs))"
| "py_len v = Inl TypeError"

section \<open>Decimal numerals\<close>

function show_nat :: "nat \<Rightarrow> string" where
  "show_nat n =
     (if n < 10 then [''0123456789'' ! n]
      else show_nat (n div 10) @ [''0123456789'' ! (n mod 10)])"
  by pat_completeness auto
termination
  by (relation "measure id") auto

declare show_nat.simps [simp del]

definition show_int :: "int \<Rightarrow> string" where
  "show_int i = (if i < 0 then ''-'' @ show_nat (nat (- i)) else show_nat (nat i))"

section \<open>Configuration, transport and the world\<close>

text \<open>
  The module-level constants read from the environment. The start-up check refuses to
  run unless the first three are non-empty strings; the two defaults are whatever
  \<^verbatim>\<open>os.getenv\<close> returned, \<open>None\<close> when the variable is unset.
\<close>

record config =
  TENANT_ID :: string
  CLIENT_ID :: string
  CLIENT_SECRET :: string
  USER_OBJECT_ID :: "string option"
  CAPACITY_ID :: "string option"
  ENV_SOURCE :: string

definition FABRIC_BASE :: string where
  "FABRIC_BASE = ''https://api.fabric.microsoft.com/v1''"

datatype http_method = GET | POST

datatype payload =
    NoPayload
  | FormData "(string \<times> string) list"
  | JsonData pyval

record request =
  rmethod :: http_method
  rurl :: string
  rheaders :: "(string \<times> string) list"
  rbody :: payload

text \<open>
  A response of the \<^verbatim>\<open>requests\<close> library: \<open>json_body\<close> is what \<^verbatim>\<open>resp.json()\<close>
  returns, \<open>None\<close> where decoding the text raises.
\<close>

record response =
  status_code :: int
  reason :: string
  url :: string
  resp_text :: string
  json_body :: "pyval option"

text \<open>
  The world: the state of the remote services and the requests handed to the network so
  far, oldest first. The environment holds the configuration, the network with the
  remote services as a function from their state and a request to their next state and
  a response, or to no response where the connection fails or times out, and the two
  library functions whose output the handlers embed in strings:
  \<^verbatim>\<open>json.dumps(data, indent=2)\<close> and the formatting of a value that is not a string.
\<close>

record 's world =
  upstream :: 's
  calls :: "request list"

record 's env =
  conf :: config
  transport :: "'s \<Rightarrow> request \<Rightarrow> response option \<times> 's"
  json_dumps :: "pyval \<Rightarrow> string"
  py_repr :: "pyval \<Rightarrow> string"

text \<open>
  Before anything is sent, the header values are checked twice. \<^verbatim>\<open>requests\<close> matches
  each value against \<^verbatim>\<open>^\S[^\r\n]*$|^$\<close>, where \<^verbatim>\<open>$\<close> also matches before a line
  feed that ends the string, and raises InvalidHeader on a mismatch; then
  \<^verbatim>\<open>http.client\<close> raises ValueError on a value with a line feed that is not followed by
  a space or a tab, or a carriage return that is not followed by a space, a tab or a
  line feed. A character is one of the 256 of Latin-1, so that a value Latin-1 cannot
  encode is outside the model.
\<close>

definition CR :: char where
  "CR = CHR 0x0D"

definition LF :: char where
  "LF = CHR 0x0A"

definition py_isspace :: "char \<Rightarrow> bool" where
  "py_isspace c =
     (c \<in> set [CHR 0x09, CHR 0x0A, CHR 0x0B, CHR 0x0C, CHR 0x0D, CHR 0x1C, CHR 0x1D,
                 CHR 0x1E, CHR 0x1F, CHR 0x20, CHR 0x85, CHR 0xA0])"

definition requests_accepts :: "string \<Rightarrow> bool" where
  "requests_accepts v =
     (let b = (if v \<noteq> [] \<and> last v = LF then butlast v else v)
      in b = [] \<or> (\<not> py_isspace (hd b) \<and> CR \<notin> set b \<and> LF \<notin> set b))"

fun http_client_illegal :: "string \<Rightarrow> bool" where
  "http_client_illegal [] = False"
| "http_client_illegal [c] = (c = LF \<or> c = CR)"
| "http_client_illegal (c # d # cs) =
     ((c = LF \<and> d \<noteq> CHR '' '' \<and> d \<noteq> CHR 0x09)
      \<or> (c = CR \<and> d \<noteq> CHR '' '' \<and> d \<noteq> CHR 0x09 \<and> d \<noteq> LF)
      \<or> http_client_illegal (d # cs))"

definition refusal :: "(string \<times> string) list \<Rightarrow> error option" where
  "refusal hs =
     (if \<not> list_all requests_accepts (map snd hs) then Some InvalidHeader
      else if list_ex http_client_illegal (map snd hs) then Some ValueError
      else None)"

text \<open>
  \<^verbatim>\<open>requests.get\<close> and \<^verbatim>\<open>requests.post\<close>: a request with a refused header raises and
  nothing is sent; otherwise the request goes to the network and is recorded, and where
  no response comes back ConnectionError is raised.
\<close>

definition send :: "'s env \<Rightarrow> request \<Rightarrow> 's world \<Rightarrow> (error + response) \<times> 's world" where
  "send env rq w =
     (case refusal (rheaders rq) of
        Some e \<Rightarrow> (Inl e, w)
      | None \<Rightarrow>
          (case transport env (upstream w) rq of
             (None, u) \<Rightarrow> (Inl ConnectionError, \<lparr>upstream = u, calls = calls w @ [rq]\<rparr>)
           | (Some rs, u) \<Rightarrow> (Inr rs, \<lparr>upstream = u, calls = calls w @ [rq]\<rparr>)))"

text \<open>\<^verbatim>\<open>f"{v}"\<close>: a string is inserted as it is.\<close>

definition py_str :: "'s env \<Rightarrow> pyval \<Rightarrow> string" where
  "py_str env v = (case v of PStr s \<Rightarrow> s | _ \<Rightarrow> py_repr env v)"

text \<open>\<^verbatim>\<open>Response.raise_for_status\<close> of the \<^verbatim>\<open>requests\<close> library.\<close>

definition raise_for_status :: "response \<Rightarrow> error + unit" where
  "raise_for_status r =
     (if 400 \<le> status_code r \<and> status_code r < 500 then
        Inl (HTTPError (show_int (status_code r) @ '' Client Error: '' @ reason r
                        @ '' for url: '' @ url r))
      else if 500 \<le> status_code r \<and> status_code r < 600 then
        Inl (HTTPError (show_int (status_code r) @ '' Server Error: '' @ reason r
                        @ '' for url: '' @ url r))
      else Inr ())"

section \<open>Auth helper\<close>

definition token_request :: "config \<Rightarrow> request" where
  "token_request c =
     \<lparr>rmethod = POST,
      rurl = ''https://login.microsoftonline.com/'' @ TENANT_ID c @ ''/oauth2/v2.0/token'',
      rheaders = [],
      rbody = FormData
        [(''client_id'', CLIENT_ID c),
         (''client_secret'', CLIENT_SECRET c),
         (''scope'', ''https://api.fabric.microsoft.com/.default''),
         (''grant_type'', ''client_credentials'')]\<rparr>"

definition token_failure :: "config \<Rightarrow> string \<Rightarrow> response \<Rightarrow> string" where
  "token_failure c e resp =
     ''Token request failed: '' @ e @ ''\<newline>''
     @ ''Status='' @ show_int (status_code resp) @ ''\<newline>''
     @ ''Body='' @ resp_text resp @ ''\<newline>''
     @ ''Tenant='' @ TENANT_ID c @ '' ClientId='' @ take 6 (CLIENT_ID c) @ ''... ''
     @ ''EnvSource='' @ ENV_SOURCE c"

definition get_access_token :: "'s env \<Rightarrow> 's world \<Rightarrow> (error + pyval) \<times> 's world" where
  "get_access_token env w =
     (case send env (token_request (conf env)) w of
        (Inl e, w1) \<Rightarrow> (Inl e, w1)
      | (Inr resp, w1) \<Rightarrow>
          (case raise_for_status resp of
             Inl (HTTPError e) \<Rightarrow> (Inl (RuntimeError (token_failure (conf env) e resp)), w1)
           | Inl other \<Rightarrow> (Inl other, w1)
           | Inr u \<Rightarrow>
               (case json_body resp of
                  None \<Rightarrow> (Inl JSONDecodeError, w1)
                | Some data \<Rightarrow>
                    (case py_get data ''access_token'' PNone of
                       Inl e \<Rightarrow> (Inl e, w1)
                     | Inr token \<Rightarrow>
                         if \<not> truthy token then
                           (Inl (RuntimeError
                              (''No access_token in response: '' @ json_dumps env data)), w1)
                         else (Inr token, w1)))))"

definition headers :: "'s env \<Rightarrow> pyval \<Rightarrow> (string \<times> string) list" where
  "headers env token =
     [(''Authorization'', ''Bearer '' @ py_str env token),
      (''Content-Type'', ''application/json'')]"

text \<open>\<^verbatim>\<open>requests.post(url, json=payload, headers=_headers(token))\<close>.\<close>

definition post_json :: "'s env \<Rightarrow> string \<Rightarrow> pyval \<Rightarrow> pyval \<Rightarrow> 's world
    \<Rightarrow> (error + response) \<times> 's world" where
  "post_json env u body token w =
     send env \<lparr>rmethod = POST, rurl = u, rheaders = headers env token,
               rbody = JsonData body\<rparr> w"

text \<open>The result \<^verbatim>\<open>{"status": resp.status_code, "body": resp.text}\<close>.\<close>

definition status_body :: "response \<Rightarrow> pyval" where
  "status_body resp =
     PDict [(PStr ''status'', PInt (status_code resp)), (PStr ''body'', PStr (resp_text resp))]"

text \<open>\<^verbatim>\<open>a or b\<close> on optional strings, and the test \<^verbatim>\<open>if not x\<close>.\<close>

definition str_truthy :: "string option \<Rightarrow> bool" where
  "str_truthy a = (case a of None \<Rightarrow> False | Some s \<Rightarrow> s \<noteq> [])"

definition py_or :: "string option \<Rightarrow> string option \<Rightarrow> string option" where
  "py_or a b = (if str_truthy a then a else b)"

section \<open>Diagnostics tools\<close>

definition test_token :: "'s env \<Rightarrow> 's world \<Rightarrow> (error + pyval) \<times> 's world" where
  "test_token env w =
     (case get_access_token env w of
        (Inl e, w1) \<Rightarrow> (Inl e, w1)
      | (Inr token, w1) \<Rightarrow>
          (case py_len token of
             Inl e \<Rightarrow> (Inl e, w1)
           | Inr n \<Rightarrow> (Inr (PDict [(PStr ''access_token_len'', PInt n)]), w1)))"

section \<open>Fabric tools\<close>

definition workspaces_request :: "'s env \<Rightarrow> pyval \<Rightarrow> request" where
  "workspaces_request env token =
     \<lparr>rmethod = GET, rurl = FABRIC_BASE @ ''/workspaces'',
      rheaders = [(''Authorization'', ''Bearer '' @ py_str env token)],
      rbody = NoPayload\<rparr>"

text \<open>What \<^verbatim>\<open>get_existing_workspaces\<close> does with the response to its GET.\<close>

definition workspaces_result :: "response \<Rightarrow> error + pyval" where
  "workspaces_result resp =
     (if status_code resp = 401 then
        Inr (PDict [(PStr ''error'', PStr ''401 Unauthorized''),
                    (PStr ''body'', PStr (resp_text resp))])
      else
        (case raise_for_status resp of
           Inl e \<Rightarrow> Inl e
         | Inr u \<Rightarrow>
             (case json_body resp of
                None \<Rightarrow> Inl JSONDecodeError
              | Some data \<Rightarrow>
                  (case py_get data ''value'' (PList []) of
                     Inl e \<Rightarrow> Inl e
                   | Inr v \<Rightarrow>
                       (case py_iter v of
                          Inl e \<Rightarrow> Inl e
                        | Inr items \<Rightarrow>
                            (case dict_comp ''displayName'' ''id'' items [] of
                               Inl e \<Rightarrow> Inl e
                             | Inr d \<Rightarrow> Inr (PDict d)))))))"

definition get_existing_workspaces :: "'s env \<Rightarrow> 's world \<Rightarrow> (error + pyval) \<times> 's world" where
  "get_existing_workspaces env w =
     (case get_access_token env w of
        (Inl e, w1) \<Rightarrow> (Inl e, w1)
      | (Inr token, w1) \<Rightarrow>
          (case send env (workspaces_request env token) w1 of
             (Inl e, w2) \<Rightarrow> (Inl e, w2)
           | (Inr resp, w2) \<Rightarrow> (workspaces_result resp, w2)))"

text \<open>
  The tools that read the created resource from a 201 response share the shape
  \<^verbatim>\<open>if resp.status_code == 201: ... resp.json() ...\<close> followed by the status and body.
\<close>

definition workspace_payload :: "string \<Rightarrow> string \<Rightarrow> pyval" where
  "workspace_payload name cid =
     PDict [(PStr ''displayName'', PStr name), (PStr ''capacityId'', PStr cid)]"

definition workspace_result :: "response \<Rightarrow> error + pyval" where
  "workspace_result resp =
     (if status_code resp = 201 then
        (case json_body resp of
           None \<Rightarrow> Inl JSONDecodeError
         | Some j \<Rightarrow>
             (case py_get j ''id'' PNone of
                Inl e \<Rightarrow> Inl e
              | Inr i \<Rightarrow> Inr (PDict [(PStr ''workspace_id'', i)])))
      else Inr (status_body resp))"

definition create_workspace :: "'s env \<Rightarrow> string \<Rightarrow> string option \<Rightarrow> 's world
    \<Rightarrow> (error + pyval) \<times> 's world" where
  "create_workspace env name capacity_id w =
     (case py_or capacity_id (CAPACITY_ID (conf env)) of
        None \<Rightarrow>
          (Inr (PDict [(PStr ''error'',
                  PStr ''capacity_id not provided and CAPACITY_ID missing in .env'')]), w)
      | Some cid \<Rightarrow>
          if cid = [] then
            (Inr (PDict [(PStr ''error'',
                    PStr ''capacity_id not provided and CAPACITY_ID missing in .env'')]), w)
          else
            (case get_access_token env w of
               (Inl e, w1) \<Rightarrow> (Inl e, w1)
             | (Inr token, w1) \<Rightarrow>
                 (case post_json env (FABRIC_BASE @ ''/workspaces'')
                         (workspace_payload name cid) token w1 of
                    (Inl e, w2) \<Rightarrow> (Inl e, w2)
                  | (Inr resp, w2) \<Rightarrow> (workspace_result resp, w2))))"

definition role_payload :: "string \<Rightarrow> pyval" where
  "role_payload uid =
     PDict [(PStr ''principal'', PDict [(PStr ''id'', PStr uid), (PStr ''type'', PStr ''User'')]),
            (PStr ''role'', PStr ''Admin'')]"

definition assign_workspace_admin :: "'s env \<Rightarrow> string \<Rightarrow> string option \<Rightarrow> 's world
    \<Rightarrow> (error + pyval) \<times> 's world" where
  "assign_workspace_admin env workspace_id user_object_id w =
     (case py_or user_object_id (USER_OBJECT_ID (conf env)) of
        None \<Rightarrow>
          (Inr (PDict [(PStr ''error'',
                  PStr ''user_object_id not provided and USER_OBJECT_ID missing in .env'')]), w)
      | Some uid \<Rightarrow>
          if uid = [] then
            (Inr (PDict [(PStr ''error'',
                    PStr ''user_object_id not provided and USER_OBJECT_ID missing in .env'')]), w)
          else
            (case get_access_token env w of
               (Inl e, w1) \<Rightarrow> (Inl e, w1)
             | (Inr token, w1) \<Rightarrow>
                 (case post_json env
                         (FABRIC_BASE @ ''/workspaces/'' @ workspace_id @ ''/roleAssignments'')
                         (role_payload uid) token w1 of
                    (Inl e, w2) \<Rightarrow> (Inl e, w2)
                  | (Inr resp, w2) \<Rightarrow> (Inr (status_body resp), w2))))"

definition folder_payload :: "string \<Rightarrow> string option \<Rightarrow> pyval" where
  "folder_payload folder_name parent_folder_id =
     PDict ((PStr ''displayName'', PStr folder_name) #
            (case parent_folder_id of
               None \<Rightarrow> []
             | Some p \<Rightarrow> if p = [] then [] else [(PStr ''parentFolderId'', PStr p)]))"

definition folder_result :: "response \<Rightarrow> error + pyval" where
  "folder_result resp =
     (if status_code resp = 201 then
        (case json_body resp of
           None \<Rightarrow> Inl JSONDecodeError
         | Some j \<Rightarrow>
             (case py_get j ''id'' PNone of
                Inl e \<Rightarrow> Inl e
              | Inr i \<Rightarrow>
                  (case py_get j ''displayName'' PNone of
                     Inl e \<Rightarrow> Inl e
                   | Inr d \<Rightarrow> Inr (PDict [(PStr ''folder_id'', i), (PStr ''displayName'', d)]))))
      else Inr (status_body resp))"

definition create_workspace_folder :: "'s env \<Rightarrow> string \<Rightarrow> string \<Rightarrow> string option \<Rightarrow> 's world
    \<Rightarrow> (error + pyval) \<times> 's world" where
  "create_workspace_folder env workspace_id folder_name parent_folder_id w =
     (case get_access_token env w of
        (Inl e, w1) \<Rightarrow> (Inl e, w1)
      | (Inr token, w1) \<Rightarrow>
          (case post_json env (FABRIC_BASE @ ''/workspaces/'' @ workspace_id @ ''/folders'')
                  (folder_payload folder_name parent_folder_id) token w1 of
             (Inl e, w2) \<Rightarrow> (Inl e, w2)
           | (Inr resp, w2) \<Rightarrow> (folder_result resp, w2)))"

definition create_lakehouse :: "'s env \<Rightarrow> string \<Rightarrow> string \<Rightarrow> 's world
    \<Rightarrow> (error + pyval) \<times> 's world" where
  "create_lakehouse env workspace_id lakehouse_name w =
     (case get_access_token env w of
        (Inl e, w1) \<Rightarrow> (Inl e, w1)
      | (Inr token, w1) \<Rightarrow>
          (case post_json env (FABRIC_BASE @ ''/workspaces/'' @ workspace_id @ ''/lakehouses'')
                  (PDict [(PStr ''displayName'', PStr lakehouse_name)]) token w1 of
             (Inl e, w2) \<Rightarrow> (Inl e, w2)
           | (Inr resp, w2) \<Rightarrow> (Inr (status_body resp), w2)))"

definition create_warehouse :: "'s env \<Rightarrow> string \<Rightarrow> string \<Rightarrow> 's world
    \<Rightarrow> (error + pyval) \<times> 's world" where
  "create_warehouse env workspace_id warehouse_name w =
     (case get_access_token env w of
        (Inl e, w1) \<Rightarrow> (Inl e, w1)
      | (Inr token, w1) \<Rightarrow>
          (case post_json env (FABRIC_BASE @ ''/workspaces/'' @ workspace_id @ ''/warehouses'')
                  (PDict [(PStr ''displayName'', PStr warehouse_name)]) token w1 of
             (Inl e, w2) \<Rightarrow> (Inl e, w2)
           | (Inr resp, w2) \<Rightarrow> (Inr (status_body resp), w2)))"

definition stage_object :: "string \<Rightarrow> pyval" where
  "stage_object s =
     PDict [(PStr ''displayName'', PStr s), (PStr ''description'', PStr (s @ '' stage'')),
            (PStr ''isPublic'', PBool False)]"

definition pipeline_payload :: "string \<Rightarrow> string \<Rightarrow> string list \<Rightarrow> pyval" where
  "pipeline_payload name description stages =
     PDict [(PStr ''displayName'', PStr name), (PStr ''description'', PStr description),
            (PStr ''stages'', PList (map stage_object stages))]"

definition pipeline_result :: "response \<Rightarrow> error + pyval" where
  "pipeline_result resp =
     (if status_code resp = 201 then
        (case json_body resp of
           None \<Rightarrow> Inl JSONDecodeError
         | Some p \<Rightarrow>
             (case py_get p ''stages'' (PList []) of
                Inl e \<Rightarrow> Inl e
              | Inr v \<Rightarrow>
                  (case py_iter v of
                     Inl e \<Rightarrow> Inl e
                   | Inr items \<Rightarrow>
                       (case dict_comp ''displayName'' ''id'' items [] of
                          Inl e \<Rightarrow> Inl e
                        | Inr stage_map \<Rightarrow>
                            (case py_get p ''id'' PNone of
                               Inl e \<Rightarrow> Inl e
                             | Inr i \<Rightarrow>
                                 Inr (PDict [(PStr ''pipeline_id'', i),
                                             (PStr ''stages'', PDict stage_map)]))))))
      else Inr (status_body resp))"

definition create_deployment_pipeline :: "'s env \<Rightarrow> string \<Rightarrow> string \<Rightarrow> string list \<Rightarrow> 's world
    \<Rightarrow> (error + pyval) \<times> 's world" where
  "create_deployment_pipeline env name description stages w =
     (case get_access_token env w of
        (Inl e, w1) \<Rightarrow> (Inl e, w1)
      | (Inr token, w1) \<Rightarrow>
          (case post_json env (FABRIC_BASE @ ''/deploymentPipelines'')
                  (pipeline_payload name description stages) token w1 of
             (Inl e, w2) \<Rightarrow> (Inl e, w2)
           | (Inr resp, w2) \<Rightarrow> (pipeline_result resp, w2)))"

definition assign_workspace_to_stage :: "'s env \<Rightarrow> string \<Rightarrow> string \<Rightarrow> string \<Rightarrow> 's world
    \<Rightarrow> (error + pyval) \<times> 's world" where
  "assign_workspace_to_stage env pipeline_id stage_id workspace_id w =
     (case get_access_token env w of
        (Inl e, w1) \<Rightarrow> (Inl e, w1)
      | (Inr token, w1) \<Rightarrow>
          (case post_json env
                  (FABRIC_BASE @ ''/deploymentPipelines/'' @ pipeline_id @ ''/stages/''
                   @ stage_id @ ''/assignWorkspace'')
                  (PDict [(PStr ''workspaceId'', PStr workspace_id)]) token w1 of
             (Inl e, w2) \<Rightarrow> (Inl e, w2)
           | (Inr resp, w2) \<Rightarrow> (Inr (status_body resp), w2)))"

definition assign_pipeline_admin :: "'s env \<Rightarrow> string \<Rightarrow> string option \<Rightarrow> 's world
    \<Rightarrow> (error + pyval) \<times> 's world" where
  "assign_pipeline_admin env pipeline_id user_object_id w =
     (case py_or user_object_id (USER_OBJECT_ID (conf env)) of
        None \<Rightarrow>
          (Inr (PDict [(PStr ''error'',
                  PStr ''user_object_id not provided and USER_OBJECT_ID missing in .env'')]), w)
      | Some uid \<Rightarrow>
          if uid = [] then
            (Inr (PDict [(PStr ''error'',
                    PStr ''user_object_id not provided and USER_OBJECT_ID missing in .env'')]), w)
          else
            (case get_access_token env w of
               (Inl e, w1) \<Rightarrow> (Inl e, w1)
             | (Inr token, w1) \<Rightarrow>
                 (case post_json env
                         (FABRIC_BASE @ ''/deploymentPipelines/'' @ pipeline_id
                          @ ''/roleAssignments'')
                         (role_payload uid) token w1 of
                    (Inl e, w2) \<Rightarrow> (Inl e, w2)
                  | (Inr resp, w2) \<Rightarrow> (Inr (status_body resp), w2))))"


section \<open>Dictionaries read through their string keys\<close>

text \<open>
  An element \<open>x\<close> of a decoded array carries the pair \<open>p\<close> under the fields \<open>kf\<close>
  and \<open>vf\<close> when it is an object whose \<open>kf\<close> is the string \<open>fst p\<close> and whose
  \<open>vf\<close> is \<open>snd p\<close>. \<open>str_dict\<close> is the dictionary with the given string keys in
  the given order; \<open>store_all\<close> stores pairs one after the other.
\<close>

definition carries :: "string \<Rightarrow> string \<Rightarrow> pyval \<Rightarrow> string \<times> pyval \<Rightarrow> bool" where
  "carries kf vf x p =
     (case x of
        PDict e \<Rightarrow> map_of e (PStr kf) = Some (PStr (fst p)) \<and> map_of e (PStr vf) = Some (snd p)
      | _ \<Rightarrow> False)"

definition str_dict :: "(string \<times> pyval) list \<Rightarrow> (pyval \<times> pyval) list" where
  "str_dict al = map (\<lambda>p. (PStr (fst p), snd p)) al"

definition store_all :: "(string \<times> pyval) list \<Rightarrow> (pyval \<times> pyval) list \<Rightarrow> (pyval \<times> pyval) list" where
  "store_all pairs acc = fold (\<lambda>p. dict_set (PStr (fst p)) (snd p)) pairs acc"

section \<open>A scripted transport and an allocating upstream\<close>

text \<open>
  \<open>replay\<close> answers the requests it receives with the responses of a script, in order,
  and with no response once the script is used up;
  \<open>allocating\<close> hands out a token on a form-encoded request and answers every other
  request with 201 and the next unused id. \<open>demo_repr\<close> stands in for Python's
  formatting of a value that is not a string.
\<close>

definition start :: "'s \<Rightarrow> 's world" where
  "start s = \<lparr>upstream = s, calls = []\<rparr>"

definition reply :: "int \<Rightarrow> string \<Rightarrow> string \<Rightarrow> pyval option \<Rightarrow> response" where
  "reply code rsn txt js =
     \<lparr>status_code = code, reason = rsn, url = [], resp_text = txt, json_body = js\<rparr>"

definition replay :: "response list \<Rightarrow> request \<Rightarrow> response option \<times> response list" where
  "replay rs rq =
     (case rs of
        [] \<Rightarrow> (None, [])
      | r # rest \<Rightarrow> (Some (r\<lparr>url := rurl rq\<rparr>), rest))"

definition demo_conf :: config where
  "demo_conf =
     \<lparr>TENANT_ID = ''contoso'', CLIENT_ID = ''0a1b2c3d-app'', CLIENT_SECRET = ''s3cr3t'',
      USER_OBJECT_ID = None, CAPACITY_ID = None, ENV_SOURCE = ''/srv/.env''\<rparr>"

definition demo_dumps :: "pyval \<Rightarrow> string" where
  \<open>demo_dumps v =
     (if v = PDict [(PStr ''access_token'', PStr [])]
      then ''{\<newline>  "access_token": ""\<newline>}'' else ''null'')\<close>

definition demo_repr :: "pyval \<Rightarrow> string" where
  "demo_repr v =
     (case v of PNone \<Rightarrow> ''None'' | PBool b \<Rightarrow> (if b then ''True'' else ''False'')
      | PInt n \<Rightarrow> show_int n | _ \<Rightarrow> ''...'')"

definition demo_env :: "config \<Rightarrow> response list env" where
  "demo_env c =
     \<lparr>conf = c, transport = replay, json_dumps = demo_dumps, py_repr = demo_repr\<rparr>"

definition token_ok :: response where
  \<open>token_ok = reply 200 ''OK'' ''{"access_token": "tok-1"}''
                 (Some (PDict [(PStr ''access_token'', PStr ''tok-1'')]))\<close>

definition allocating :: "nat \<Rightarrow> request \<Rightarrow> response option \<times> nat" where
  \<open>allocating n rq =
     (case rbody rq of
        FormData f \<Rightarrow> (Some (token_ok\<lparr>url := rurl rq\<rparr>), n)
      | _ \<Rightarrow>
          (Some ((reply 201 ''Created'' (''{"id": '' @ show_nat n @ ''}'')
                    (Some (PDict [(PStr ''id'', PInt (int n))])))\<lparr>url := rurl rq\<rparr>),
           Suc n))\<close>

definition alloc_env :: "config \<Rightarrow> nat env" where
  "alloc_env c =
     \<lparr>conf = c, transport = allocating, json_dumps = demo_dumps, py_repr = demo_repr\<rparr>"


section \<open>The calls an invocation makes\<close>

text \<open>
  \<open>upstream_request\<close> is the request \<open>post_json\<close> sends; \<open>made w w'\<close> are the calls
  recorded in \<open>w'\<close> after those of \<open>w\<close>.
\<close>

definition upstream_request :: "'s env \<Rightarrow> string \<Rightarrow> pyval \<Rightarrow> pyval \<Rightarrow> request" where
  "upstream_request env u body token =
     \<lparr>rmethod = POST, rurl = u, rheaders = headers env token, rbody = JsonData body\<rparr>"

definition made :: "'s world \<Rightarrow> 's world \<Rightarrow> request list" where
  "made w w' = drop (length (calls w)) (calls w')"

section \<open>Example responses and the error shape of the specification\<close>

text \<open>
  \<open>claimed_error_form\<close> is the shape the specification gives the result of a call whose
  defaulted argument cannot be resolved: a dictionary with the single key \<open>error\<close> and a
  message ending in ``not provided and no default configured''.
\<close>

definition claimed_error_form :: "error + pyval \<Rightarrow> bool" where
  "claimed_error_form r =
     (case r of
        Inr (PDict [(PStr k, PStr m)]) \<Rightarrow>
          k = ''error'' \<and> suffix '' not provided and no default configured'' m
      | _ \<Rightarrow> False)"

definition unauthorized :: response where
  \<open>unauthorized = reply 401 ''Unauthorized'' ''{"message": "token expired"}''
     (Some (PDict [(PStr ''message'', PStr ''token expired'')]))\<close>

definition created_ws :: response where
  \<open>created_ws = reply 201 ''Created'' ''{"id": "ws-42", "displayName": "Sales"}''
     (Some (PDict [(PStr ''id'', PStr ''ws-42''), (PStr ''displayName'', PStr ''Sales'')]))\<close>

definition with_capacity :: config where
  "with_capacity = demo_conf\<lparr>CAPACITY_ID := Some ''cap-9'', USER_OBJECT_ID := Some ''user-3''\<rparr>"

definition denied :: response where
  \<open>denied = reply 401 ''Unauthorized'' ''{"error": "invalid_client"}''
     (Some (PDict [(PStr ''error'', PStr ''invalid_client'')]))\<close>



definition server_error :: response where
  \<open>server_error = reply 500 ''Internal Server Error'' ''{"message": "try again later"}''
     (Some (PDict [(PStr ''message'', PStr ''try again later'')]))\<close>

definition conflict :: response where
  \<open>conflict = reply 409 ''Conflict'' ''{"errorCode": "WorkspaceNameAlreadyExists"}''
     (Some (PDict [(PStr ''errorCode'', PStr ''WorkspaceNameAlreadyExists'')]))\<close>

definition two_workspaces :: response where
  \<open>two_workspaces = reply 200 ''OK''
     ''{"value":[{"displayName":"A","id":"1"},{"displayName":"B","id":"2"}]}''
     (Some (PDict [(PStr ''value'',
        PList [PDict [(PStr ''displayName'', PStr ''A''), (PStr ''id'', PStr ''1'')],
               PDict [(PStr ''displayName'', PStr ''B''), (PStr ''id'', PStr ''2'')]])]))\<close>

definition created_pipeline :: response where
  \<open>created_pipeline = reply 201 ''Created''
     ''{"id":"pl-1","stages":[{"displayName":"Dev","id":"d1"},{"displayName":"Test","id":"t1"},{"displayName":"Prod","id":"p1"}]}''
     (Some (PDict [(PStr ''id'', PStr ''pl-1''),
        (PStr ''stages'',
         PList [PDict [(PStr ''displayName'', PStr ''Dev''), (PStr ''id'', PStr ''d1'')],
                PDict [(PStr ''displayName'', PStr ''Test''), (PStr ''id'', PStr ''t1'')],
                PDict [(PStr ''displayName'', PStr ''Prod''), (PStr ''id'', PStr ''p1'')]])]))\<close>

definition failure_message :: "error + pyval \<Rightarrow> string" where
  "failure_message r = (case r of Inl (RuntimeError m) \<Rightarrow> m | _ \<Rightarrow> [])"

definition multiple_choices :: response where
  \<open>multiple_choices = reply 300 ''Multiple Choices'' ''{"access_token": "tok-1"}''
     (Some (PDict [(PStr ''access_token'', PStr ''tok-1'')]))\<close>

definition empty_token :: response where
  \<open>empty_token = reply 200 ''OK'' ''{"access_token": ""}''
     (Some (PDict [(PStr ''access_token'', PStr [])]))\<close>

definition echoing :: response where
  "echoing = reply 400 ''Bad Request'' ''malformed request: client_secret=s3cr3t'' None"


definition role_assigned :: response where
  \<open>role_assigned = reply 201 ''Created'' ''{"id": "user-3", "role": "Admin"}''
     (Some (PDict [(PStr ''id'', PStr ''user-3''), (PStr ''role'', PStr ''Admin'')]))\<close>


section \<open>Basic facts\<close>

lemma key_eq_PStr [simp]: "key_eq x (PStr n) = (x = PStr n)"
  by (cases x) (auto simp: key_eq_def)

lemma map_of_dict_set:
  "map_of (dict_set (PStr n) i d) k = (if k = PStr n then Some i else map_of d k)"
  by (induction d) auto

lemma keys_dict_set:
  "map fst (dict_set (PStr n) i d) =
     (if PStr n \<in> set (map fst d) then map fst d else map fst d @ [PStr n])"
  by (induction d) auto

lemma dict_set_fresh:
  "PStr n \<notin> set (map fst d) \<Longrightarrow> dict_set (PStr n) i d = d @ [(PStr n, i)]"
  by (induction d) auto

lemma dict_comp_carries:
  "list_all2 (carries kf vf) xs pairs \<Longrightarrow> dict_comp kf vf xs acc = Inr (store_all pairs acc)"
proof (induction xs pairs arbitrary: acc rule: list_all2_induct)
  case Nil
  then show ?case by (simp add: store_all_def)
next
  case (Cons x xs p ps)
  from Cons.hyps(1) obtain e where x: "x = PDict e"
    and k: "map_of e (PStr kf) = Some (PStr (fst p))" and v: "map_of e (PStr vf) = Some (snd p)"
    by (auto simp: carries_def split: pyval.splits)
  show ?case
    using Cons.IH [of "dict_set (PStr (fst p)) (snd p) acc"]
    by (simp add: x k v py_getitem_def store_all_def)
qed

lemma map_of_store_all:
  "map_of (store_all pairs acc) (PStr n) =
     (case map_of (rev pairs) n of Some i \<Rightarrow> Some i | None \<Rightarrow> map_of acc (PStr n))"
proof (induction pairs arbitrary: acc)
  case Nil
  then show ?case by (simp add: store_all_def)
next
  case (Cons p ps)
  have "store_all (p # ps) acc = store_all ps (dict_set (PStr (fst p)) (snd p) acc)"
    by (simp add: store_all_def)
  then show ?case
    using Cons [of "dict_set (PStr (fst p)) (snd p) acc"]
    by (cases p) (auto simp: map_of_dict_set map_add_def split: option.splits)
qed

lemma keys_store_all:
  "set (map fst (store_all pairs acc)) = set (map fst acc) \<union> PStr ` fst ` set pairs"
proof (induction pairs arbitrary: acc)
  case Nil
  then show ?case by (simp add: store_all_def)
next
  case (Cons p ps)
  have "store_all (p # ps) acc = store_all ps (dict_set (PStr (fst p)) (snd p) acc)"
    by (simp add: store_all_def)
  then show ?case
    using Cons [of "dict_set (PStr (fst p)) (snd p) acc"]
    by (auto simp: keys_dict_set split: if_splits)
qed

lemma distinct_store_all:
  "distinct (map fst acc) \<Longrightarrow> distinct (map fst (store_all pairs acc))"
proof (induction pairs arbitrary: acc)
  case Nil
  then show ?case by (simp add: store_all_def)
next
  case (Cons p ps)
  have "store_all (p # ps) acc = store_all ps (dict_set (PStr (fst p)) (snd p) acc)"
    by (simp add: store_all_def)
  moreover have "distinct (map fst (dict_set (PStr (fst p)) (snd p) acc))"
    using Cons.prems by (auto simp: keys_dict_set)
  ultimately show ?case using Cons.IH by simp
qed

lemma store_all_distinct:
  "distinct (map fst (al @ pairs)) \<Longrightarrow> store_all pairs (str_dict al) = str_dict (al @ pairs)"
proof (induction pairs arbitrary: al)
  case Nil
  then show ?case by (simp add: store_all_def)
next
  case (Cons p ps)
  have fresh: "PStr (fst p) \<notin> set (map fst (str_dict al))"
    using Cons.prems by (auto simp: str_dict_def)
  have step: "store_all (p # ps) (str_dict al) = store_all ps (str_dict (al @ [p]))"
    by (simp add: store_all_def dict_set_fresh [OF fresh]) (simp add: str_dict_def)
  have "distinct (map fst ((al @ [p]) @ ps))" using Cons.prems by simp
  from Cons.IH [OF this] step show ?case by simp
qed


lemma CR_neq_LF [simp]: "CR \<noteq> LF" "LF \<noteq> CR"
  by (simp_all add: CR_def LF_def)

lemma bearer_plain:
  "''Bearer '' \<noteq> []" "\<not> py_isspace (hd ''Bearer '')" "CR \<notin> set ''Bearer ''" "LF \<notin> set ''Bearer ''"
  by (simp_all add: py_isspace_def CR_def LF_def)

lemma requests_accepts_prefixed:
  assumes "p \<noteq> []" "\<not> py_isspace (hd p)" "CR \<notin> set p" "LF \<notin> set p"
  shows "requests_accepts (p @ s) = (CR \<notin> set s \<and> LF \<notin> set (butlast s))"
proof (cases s rule: rev_cases)
  case Nil
  have "last p \<in> set p" using assms(1) by simp
  then have "last p \<noteq> LF" using assms(4) by auto
  then show ?thesis using Nil assms by (simp add: requests_accepts_def)
next
  case (snoc s' c)
  have v: "p @ s = (p @ s') @ [c]" using snoc by simp
  have h: "hd (p @ s') = hd p" "hd (p @ s' @ [c]) = hd p" using assms(1) by simp_all
  have b: "butlast (p @ s' @ [c]) = p @ s'" "last (p @ s' @ [c]) = c"
    by (simp_all add: butlast_append)
  show ?thesis
  proof (cases "c = LF")
    case True
    then show ?thesis using snoc assms h b by (auto simp: requests_accepts_def Let_def)
  next
    case False
    then show ?thesis using snoc assms h b by (auto simp: requests_accepts_def Let_def)
  qed
qed

lemma http_client_illegal_last:
  "CR \<notin> set s \<Longrightarrow> LF \<notin> set (butlast s) \<Longrightarrow>
     http_client_illegal s = (s \<noteq> [] \<and> last s = LF)"
  by (induction s rule: http_client_illegal.induct) (auto split: if_splits)

lemma http_client_illegal_prefix:
  "CR \<notin> set p \<Longrightarrow> LF \<notin> set p \<Longrightarrow> http_client_illegal (p @ s) = http_client_illegal s"
proof (induction p)
  case Nil
  then show ?case by simp
next
  case (Cons c p)
  then show ?case by (cases "p @ s") auto
qed

lemma refusal_prefixed:
  assumes "p \<noteq> []" "\<not> py_isspace (hd p)" "CR \<notin> set p" "LF \<notin> set p"
  shows "refusal [(n, p @ s)] =
     (if CR \<in> set s \<or> LF \<in> set (butlast s) then Some InvalidHeader
      else if s \<noteq> [] \<and> last s = LF then Some ValueError
      else None)"
proof -
  note a = requests_accepts_prefixed [OF assms, of s]
  have i: "CR \<notin> set s \<Longrightarrow> LF \<notin> set (butlast s) \<Longrightarrow>
          http_client_illegal (p @ s) = (s \<noteq> [] \<and> last s = LF)"
    using http_client_illegal_prefix [OF assms(3,4), of s] http_client_illegal_last [of s]
    by simp
  show ?thesis
  proof (cases "CR \<in> set s \<or> LF \<in> set (butlast s)")
    case True
    then show ?thesis using a by (auto simp: refusal_def)
  next
    case False
    then show ?thesis using a i by (simp add: refusal_def)
  qed
qed

lemma content_type_plain:
  "requests_accepts ''application/json''" "\<not> http_client_illegal ''application/json''"
  by (simp_all add: requests_accepts_def py_isspace_def CR_def LF_def)

lemma refusal_pair:
  "requests_accepts b \<Longrightarrow> \<not> http_client_illegal b \<Longrightarrow> refusal [(n, a), (m, b)] = refusal [(n, a)]"
  by (simp add: refusal_def)

lemma refusal_headers:
  "refusal (headers env tok) =
     (if CR \<in> set (py_str env tok) \<or> LF \<in> set (butlast (py_str env tok))
      then Some InvalidHeader
      else if py_str env tok \<noteq> [] \<and> last (py_str env tok) = LF then Some ValueError
      else None)"
  unfolding headers_def refusal_pair [OF content_type_plain]
  by (rule refusal_prefixed [OF bearer_plain])

lemma refusal_none:
  "(refusal (headers env tok) = None) =
     (CR \<notin> set (py_str env tok) \<and> LF \<notin> set (py_str env tok))"
proof -
  have "LF \<in> set s \<longleftrightarrow> LF \<in> set (butlast s) \<or> (s \<noteq> [] \<and> last s = LF)" for s :: string
    by (cases s rule: rev_cases) auto
  from this [of "py_str env tok"] show ?thesis
    unfolding refusal_headers by (cases "CR \<in> set (py_str env tok)") auto
qed

lemma send_calls: "send env rq w = (Inr rs, w') \<Longrightarrow> calls w' = calls w @ [rq]"
  by (auto simp: send_def split: prod.splits option.splits)

lemma send_accepted: "send env rq w = (Inr rs, w') \<Longrightarrow> refusal (rheaders rq) = None"
  by (auto simp: send_def split: prod.splits option.splits)

lemma send_refused: "refusal (rheaders rq) = Some e \<Longrightarrow> send env rq w = (Inl e, w)"
  by (simp add: send_def)

lemma send_sent:
  "refusal (rheaders rq) = None \<Longrightarrow> calls (snd (send env rq w)) = calls w @ [rq]"
  by (auto simp: send_def split: prod.splits option.splits)

lemma token_world:
  "get_access_token env w = (r, w1) \<Longrightarrow> w1 = snd (send env (token_request (conf env)) w)"
  unfolding get_access_token_def
  by (auto split: prod.splits sum.splits error.splits option.splits if_splits)

lemma token_calls:
  "get_access_token env w = (r, w1) \<Longrightarrow> calls w1 = calls w @ [token_request (conf env)]"
  using token_world [of env w r w1] send_sent [of "token_request (conf env)" env w]
  by (simp add: token_request_def refusal_def)

lemmas demo_defs = demo_env_def demo_conf_def replay_def reply_def start_def token_ok_def
  demo_dumps_def demo_repr_def

lemmas header_defs = refusal_def requests_accepts_def py_isspace_def CR_def LF_def

lemmas handler_defs = get_access_token_def send_def token_request_def raise_for_status_def
  py_get_def py_getitem_def post_json_def headers_def py_str_def status_body_def
  py_or_def str_truthy_def FABRIC_BASE_def token_failure_def header_defs

lemma post_json_calls:
  "post_json env u p tok w1 = (Inr resp, w2) \<Longrightarrow>
     calls w2 = calls w1 @ [upstream_request env u p tok]"
  by (auto simp: post_json_def upstream_request_def dest: send_calls)

lemma post_json_accepted:
  "post_json env u p tok w1 = (Inr resp, w2) \<Longrightarrow> refusal (headers env tok) = None"
  by (auto simp: post_json_def dest: send_accepted)

lemma post_json_refused:
  "refusal (headers env tok) = Some e \<Longrightarrow> post_json env u p tok w1 = (Inl e, w1)"
  by (simp add: post_json_def send_refused)

lemma post_json_sent:
  "refusal (headers env tok) = None \<Longrightarrow>
     calls (snd (post_json env u p tok w1)) = calls w1 @ [upstream_request env u p tok]"
  by (simp add: post_json_def upstream_request_def send_sent)

lemma forward_calls:
  assumes "get_access_token env w = (r, w1)"
  shows "calls (snd (case get_access_token env w of
            (Inl e, w1) \<Rightarrow> (Inl e, w1)
          | (Inr token, w1) \<Rightarrow>
              (case post_json env u p token w1 of
                 (Inl e, w2) \<Rightarrow> (Inl e, w2)
               | (Inr resp, w2) \<Rightarrow> (f resp, w2))))
         = calls w @ token_request (conf env) #
             (case r of
                Inl e \<Rightarrow> []
              | Inr tok \<Rightarrow>
                  if refusal (headers env tok) = None then [upstream_request env u p tok]
                  else [])"
proof (cases r)
  case (Inl e)
  then show ?thesis using assms token_calls [OF assms] by simp
next
  case (Inr tok)
  show ?thesis
  proof (cases "refusal (headers env tok)")
    case None
    obtain x w2 where p: "post_json env u p tok w1 = (x, w2)"
      by (cases "post_json env u p tok w1")
    from post_json_sent [OF None, of u p w1] p
    have "calls w2 = calls w1 @ [upstream_request env u p tok]" by simp
    then show ?thesis
      using assms Inr p None token_calls [OF assms] by (cases x) simp_all
  next
    case (Some e)
    then show ?thesis
      using assms Inr token_calls [OF assms] post_json_refused [OF Some, of u p w1] by simp
  qed
qed

lemma forward_result:
  assumes "get_access_token env w = (Inr tok, w1)" and "post_json env u p tok w1 = (Inr resp, w2)"
  shows "(case get_access_token env w of
            (Inl e, w1) \<Rightarrow> (Inl e, w1)
          | (Inr token, w1) \<Rightarrow>
              (case post_json env u p token w1 of
                 (Inl e, w2) \<Rightarrow> (Inl e, w2)
               | (Inr resp, w2) \<Rightarrow> (f resp, w2)))
         = (f resp, w2)"
  using assms by simp





lemma get_existing_workspaces_result:
  assumes "get_access_token env w = (Inr tok, w1)"
    and "send env (workspaces_request env tok) w1 = (Inr resp, w2)"
  shows "get_existing_workspaces env w = (workspaces_result resp, w2)"
  using assms by (simp add: get_existing_workspaces_def)

lemma create_workspace_trace:
  assumes "py_or capacity_id (CAPACITY_ID (conf env)) = Some cid" "cid \<noteq> []"
    and "get_access_token env w = (r, w1)"
  shows "calls (snd (create_workspace env name capacity_id w))
         = calls w @ token_request (conf env) #
             (case r of
                Inl e \<Rightarrow> []
              | Inr tok \<Rightarrow>
                  if refusal (headers env tok) = None
                  then [upstream_request env (FABRIC_BASE @ ''/workspaces'')
                          (workspace_payload name cid) tok]
                  else [])"
  using forward_calls [OF assms(3), where u = "FABRIC_BASE @ ''/workspaces''"
      and p = "workspace_payload name cid" and f = workspace_result]
    assms(1,2)
  by (simp add: create_workspace_def)


lemma create_workspace_result:
  assumes "py_or capacity_id (CAPACITY_ID (conf env)) = Some cid" "cid \<noteq> []"
    and "get_access_token env w = (Inr tok, w1)"
    and "post_json env (FABRIC_BASE @ ''/workspaces'') (workspace_payload name cid) tok w1
         = (Inr resp, w2)"
  shows "create_workspace env name capacity_id w = (workspace_result resp, w2)"
  using assms by (simp add: create_workspace_def)

lemma assign_workspace_admin_trace:
  assumes "py_or user_object_id (USER_OBJECT_ID (conf env)) = Some uid" "uid \<noteq> []"
    and "get_access_token env w = (r, w1)"
  shows "calls (snd (assign_workspace_admin env workspace_id user_object_id w))
         = calls w @ token_request (conf env) #
             (case r of
                Inl e \<Rightarrow> []
              | Inr tok \<Rightarrow>
                  if refusal (headers env tok) = None
                  then [upstream_request env
                          (FABRIC_BASE @ ''/workspaces/'' @ workspace_id @ ''/roleAssignments'')
                          (role_payload uid) tok]
                  else [])"
  using forward_calls [OF assms(3),
      where u = "FABRIC_BASE @ ''/workspaces/'' @ workspace_id @ ''/roleAssignments''"
      and p = "role_payload uid" and f = "\<lambda>resp. Inr (status_body resp)"]
    assms(1,2)
  by (simp add: assign_workspace_admin_def)


lemma assign_workspace_admin_result:
  assumes "py_or user_object_id (USER_OBJECT_ID (conf env)) = Some uid" "uid \<noteq> []"
    and "get_access_token env w = (Inr tok, w1)"
    and "post_json env (FABRIC_BASE @ ''/workspaces/'' @ workspace_id @ ''/roleAssignments'')
           (role_payload uid) tok w1 = (Inr resp, w2)"
  shows "assign_workspace_admin env workspace_id user_object_id w = (Inr (status_body resp), w2)"
  using assms by (simp add: assign_workspace_admin_def)

lemma assign_pipeline_admin_trace:
  assumes "py_or user_object_id (USER_OBJECT_ID (conf env)) = Some uid" "uid \<noteq> []"
    and "get_access_token env w = (r, w1)"
  shows "calls (snd (assign_pipeline_admin env pipeline_id user_object_id w))
         = calls w @ token_request (conf env) #
             (case r of
                Inl e \<Rightarrow> []
              | Inr tok \<Rightarrow>
                  if refusal (headers env tok) = None
                  then [upstream_request env
                          (FABRIC_BASE @ ''/deploymentPipelines/'' @ pipeline_id
                           @ ''/roleAssignments'')
                          (role_payload uid) tok]
                  else [])"
  using forward_calls [OF assms(3),
      where u = "FABRIC_BASE @ ''/deploymentPipelines/'' @ pipeline_id @ ''/roleAssignments''"
      and p = "role_payload uid" and f = "\<lambda>resp. Inr (status_body resp)"]
    assms(1,2)
  by (simp add: assign_pipeline_admin_def)


lemma assign_pipeline_admin_result:
  assumes "py_or user_object_id (USER_OBJECT_ID (conf env)) = Some uid" "uid \<noteq> []"
    and "get_access_token env w = (Inr tok, w1)"
    and "post_json env (FABRIC_BASE @ ''/deploymentPipelines/'' @ pipeline_id @ ''/roleAssignments'')
           (role_payload uid) tok w1 = (Inr resp, w2)"
  shows "assign_pipeline_admin env pipeline_id user_object_id w = (Inr (status_body resp), w2)"
  using assms by (simp add: assign_pipeline_admin_def)




lemma create_deployment_pipeline_trace:
  assumes "get_access_token env w = (r, w1)"
  shows "calls (snd (create_deployment_pipeline env name description stages w))
         = calls w @ token_request (conf env) #
             (case r of
                Inl e \<Rightarrow> []
              | Inr tok \<Rightarrow>
                  if refusal (headers env tok) = None
                  then [upstream_request env (FABRIC_BASE @ ''/deploymentPipelines'')
                          (pipeline_payload name description stages) tok]
                  else [])"
  unfolding create_deployment_pipeline_def by (rule forward_calls [OF assms])



lemma create_workspace_folder_result:
  assumes "get_access_token env w = (Inr tok, w1)"
    and "post_json env (FABRIC_BASE @ ''/workspaces/'' @ workspace_id @ ''/folders'')
           (folder_payload folder_name parent_folder_id) tok w1 = (Inr resp, w2)"
  shows "create_workspace_folder env workspace_id folder_name parent_folder_id w
         = (folder_result resp, w2)"
  using assms by (simp add: create_workspace_folder_def)

lemma create_lakehouse_result:
  assumes "get_access_token env w = (Inr tok, w1)"
    and "post_json env (FABRIC_BASE @ ''/workspaces/'' @ workspace_id @ ''/lakehouses'')
           (PDict [(PStr ''displayName'', PStr lakehouse_name)]) tok w1 = (Inr resp, w2)"
  shows "create_lakehouse env workspace_id lakehouse_name w = (Inr (status_body resp), w2)"
  using assms by (simp add: create_lakehouse_def)

lemma create_warehouse_result:
  assumes "get_access_token env w = (Inr tok, w1)"
    and "post_json env (FABRIC_BASE @ ''/workspaces/'' @ workspace_id @ ''/warehouses'')
           (PDict [(PStr ''displayName'', PStr warehouse_name)]) tok w1 = (Inr resp, w2)"
  shows "create_warehouse env workspace_id warehouse_name w = (Inr (status_body resp), w2)"
  using assms by (simp add: create_warehouse_def)

lemma create_deployment_pipeline_result:
  assumes "get_access_token env w = (Inr tok, w1)"
    and "post_json env (FABRIC_BASE @ ''/deploymentPipelines'')
           (pipeline_payload name description stages) tok w1 = (Inr resp, w2)"
  shows "create_deployment_pipeline env name description stages w = (pipeline_result resp, w2)"
  using assms by (simp add: create_deployment_pipeline_def)

lemma assign_workspace_to_stage_result:
  assumes "get_access_token env w = (Inr tok, w1)"
    and "post_json env (FABRIC_BASE @ ''/deploymentPipelines/'' @ pipeline_id @ ''/stages/''
                        @ stage_id @ ''/assignWorkspace'')
           (PDict [(PStr ''workspaceId'', PStr workspace_id)]) tok w1 = (Inr resp, w2)"
  shows "assign_workspace_to_stage env pipeline_id stage_id workspace_id w
         = (Inr (status_body resp), w2)"
  using assms by (simp add: assign_workspace_to_stage_def)

section \<open>Argument resolution\<close>

text \<open>
  C1, as amended. For create workspace (capacity id) and for assign workspace admin and
  assign pipeline admin (user object id): when the argument is absent and the configured
  default is absent, the handler returns the error result whose message is
  ``capacity_id not provided and CAPACITY_ID missing in .env'' (respectively
  ``user_object_id not provided and USER_OBJECT_ID missing in .env'') and leaves the world
  as it was: no token acquisition and no upstream call.
\<close>

theorem missing_default_no_network:
  "(CAPACITY_ID (conf env) = None \<longrightarrow>
      create_workspace env name None w =
        (Inr (PDict [(PStr ''error'',
           PStr ''capacity_id not provided and CAPACITY_ID missing in .env'')]), w))
   \<and> (USER_OBJECT_ID (conf env) = None \<longrightarrow>
      assign_workspace_admin env workspace_id None w =
        (Inr (PDict [(PStr ''error'',
           PStr ''user_object_id not provided and USER_OBJECT_ID missing in .env'')]), w)
      \<and> assign_pipeline_admin env pipeline_id None w =
        (Inr (PDict [(PStr ''error'',
           PStr ''user_object_id not provided and USER_OBJECT_ID missing in .env'')]), w))"
  by (simp add: create_workspace_def assign_workspace_admin_def assign_pipeline_admin_def
      py_or_def str_truthy_def)

text \<open>The theorem at a configuration without defaults.\<close>

theorem missing_default_no_network_witness:
  "CAPACITY_ID (conf (demo_env demo_conf)) = None
   \<and> USER_OBJECT_ID (conf (demo_env demo_conf)) = None
   \<and> create_workspace (demo_env demo_conf) ''Sales'' None (start [token_ok]) =
        (Inr (PDict [(PStr ''error'',
           PStr ''capacity_id not provided and CAPACITY_ID missing in .env'')]), start [token_ok])
   \<and> calls (snd (assign_workspace_admin (demo_env demo_conf) ''ws-42'' None (start [token_ok]))) = []
   \<and> calls (snd (assign_pipeline_admin (demo_env demo_conf) ''p-7'' None (start [token_ok]))) = []"
  using missing_default_no_network [of "demo_env demo_conf" "''Sales''" "start [token_ok]"
      "''ws-42''" "''p-7''"]
  by (simp add: demo_env_def demo_conf_def start_def)

text \<open>
  C1 as the specification words it fails: the message of the error result does not end in
  ``not provided and no default configured''.
\<close>

theorem missing_default_message_counterexample:
  "fst (create_workspace (demo_env demo_conf) ''Sales'' None (start [token_ok])) =
     Inr (PDict [(PStr ''error'',
        PStr ''capacity_id not provided and CAPACITY_ID missing in .env'')])
   \<and> \<not> claimed_error_form
        (fst (create_workspace (demo_env demo_conf) ''Sales'' None (start [token_ok])))"
  by (simp add: create_workspace_def py_or_def str_truthy_def demo_env_def demo_conf_def
      claimed_error_form_def suffix_to_prefix)

section \<open>Listing workspaces\<close>

text \<open>
  C6. When the token has been acquired and the upstream answers the listing request with
  status 401, list workspaces returns the result with \<open>error\<close> ``401 Unauthorized'' and
  \<open>body\<close> the raw text of the response; it does not raise.
\<close>

theorem list_workspaces_unauthorized:
  assumes "get_access_token env w = (Inr tok, w1)"
    and "send env (workspaces_request env tok) w1 = (Inr resp, w2)"
    and "status_code resp = 401"
  shows "get_existing_workspaces env w =
           (Inr (PDict [(PStr ''error'', PStr ''401 Unauthorized''),
                        (PStr ''body'', PStr (resp_text resp))]), w2)"
  using get_existing_workspaces_result [OF assms(1,2)] assms(3)
  by (simp add: workspaces_result_def)

text \<open>The theorem on a scripted transport: a token, then a 401.\<close>

theorem list_workspaces_unauthorized_witness:
  \<open>fst (get_existing_workspaces (demo_env demo_conf) (start [token_ok, unauthorized])) =
     Inr (PDict [(PStr ''error'', PStr ''401 Unauthorized''),
                 (PStr ''body'', PStr ''{"message": "token expired"}'')])\<close>
proof -
  let ?E = "demo_env demo_conf"
  let ?w = "start [token_ok, unauthorized]"
  let ?w1 = "snd (get_access_token ?E ?w)"
  let ?s = "send ?E (workspaces_request ?E (PStr ''tok-1'')) ?w1"
  let ?R = "unauthorized\<lparr>url := FABRIC_BASE @ ''/workspaces''\<rparr>"
  have a: "get_access_token ?E ?w = (Inr (PStr ''tok-1''), ?w1)"
    by (simp add: prod_eq_iff demo_defs handler_defs)
  have "fst ?s = Inr ?R"
    by (simp add: demo_defs handler_defs workspaces_request_def)
  then have b: "?s = (Inr ?R, snd ?s)" by (simp add: prod_eq_iff)
  have c: "status_code ?R = 401"
    by (simp add: unauthorized_def reply_def)
  have d: \<open>resp_text ?R = ''{"message": "token expired"}''\<close>
    by (simp add: unauthorized_def reply_def)
  show ?thesis using list_workspaces_unauthorized [OF a b c] d by simp
qed

section \<open>Creating a workspace\<close>

text \<open>
  C7. With no capacity id argument and a non-empty configured default, create workspace
  posts, after the token request, the body whose \<open>capacityId\<close> is the configured default;
  and when the upstream answers 201 with an object that has an \<open>id\<close>, the result is the
  dictionary holding that id as \<open>workspace_id\<close>.
\<close>

theorem create_workspace_default_capacity:
  assumes "CAPACITY_ID (conf env) = Some d" and "d \<noteq> []"
    and "get_access_token env w = (Inr tok, w1)"
    and "post_json env (FABRIC_BASE @ ''/workspaces'')
           (PDict [(PStr ''displayName'', PStr name), (PStr ''capacityId'', PStr d)]) tok w1
         = (Inr resp, w2)"
  shows "calls (snd (create_workspace env name None w)) =
           calls w @
           [token_request (conf env),
            \<lparr>rmethod = POST, rurl = FABRIC_BASE @ ''/workspaces'', rheaders = headers env tok,
             rbody = JsonData (PDict [(PStr ''displayName'', PStr name),
                                      (PStr ''capacityId'', PStr d)])\<rparr>]
         \<and> (status_code resp = 201 \<and> json_body resp = Some (PDict kvs)
              \<and> map_of kvs (PStr ''id'') = Some i \<longrightarrow>
            create_workspace env name None w = (Inr (PDict [(PStr ''workspace_id'', i)]), w2))"
proof -
  have r: "py_or None (CAPACITY_ID (conf env)) = Some d"
    using assms(1,2) by (simp add: py_or_def str_truthy_def)
  have p: "post_json env (FABRIC_BASE @ ''/workspaces'') (workspace_payload name d) tok w1
           = (Inr resp, w2)"
    using assms(4) by (simp add: workspace_payload_def)
  note ok = post_json_accepted [OF p]
  have "calls (snd (create_workspace env name None w)) =
          calls w @ [token_request (conf env),
            upstream_request env (FABRIC_BASE @ ''/workspaces'') (workspace_payload name d) tok]"
    using create_workspace_trace [OF r assms(2,3)] ok by simp
  moreover have "create_workspace env name None w = (workspace_result resp, w2)"
    by (rule create_workspace_result [OF r assms(2,3) p])
  ultimately show ?thesis
    by (simp add: upstream_request_def workspace_payload_def workspace_result_def py_get_def)
qed

text \<open>The theorem with the default \<open>cap-9\<close> and a 201 that carries \<open>ws-42\<close>.\<close>

theorem create_workspace_default_capacity_witness:
  "fst (create_workspace (demo_env with_capacity) ''Sales'' None (start [token_ok, created_ws])) =
     Inr (PDict [(PStr ''workspace_id'', PStr ''ws-42'')])
   \<and> calls (snd (create_workspace (demo_env with_capacity) ''Sales'' None
                   (start [token_ok, created_ws]))) =
       [token_request with_capacity,
        \<lparr>rmethod = POST, rurl = FABRIC_BASE @ ''/workspaces'',
         rheaders = headers (demo_env with_capacity) (PStr ''tok-1''),
         rbody = JsonData (PDict [(PStr ''displayName'', PStr ''Sales''),
                                  (PStr ''capacityId'', PStr ''cap-9'')])\<rparr>]"
proof -
  let ?E = "demo_env with_capacity"
  let ?w = "start [token_ok, created_ws]"
  let ?w1 = "snd (get_access_token ?E ?w)"
  let ?p = "post_json ?E (FABRIC_BASE @ ''/workspaces'')
              (PDict [(PStr ''displayName'', PStr ''Sales''), (PStr ''capacityId'', PStr ''cap-9'')])
              (PStr ''tok-1'') ?w1"
  let ?R = "created_ws\<lparr>url := FABRIC_BASE @ ''/workspaces''\<rparr>"
  have c: "CAPACITY_ID (conf ?E) = Some ''cap-9''"
    by (simp add: demo_env_def with_capacity_def)
  have n: "''cap-9'' \<noteq> []" by simp
  have a: "get_access_token ?E ?w = (Inr (PStr ''tok-1''), ?w1)"
    by (simp add: prod_eq_iff demo_defs handler_defs with_capacity_def)
  have "fst ?p = Inr ?R"
    by (simp add: demo_defs handler_defs with_capacity_def)
  then have b: "?p = (Inr ?R, snd ?p)" by (simp add: prod_eq_iff)
  have s: "status_code ?R = 201"
    and j: "json_body ?R =
              Some (PDict [(PStr ''id'', PStr ''ws-42''), (PStr ''displayName'', PStr ''Sales'')])"
    by (simp_all add: created_ws_def reply_def)
  have m: "map_of [(PStr ''id'', PStr ''ws-42''), (PStr ''displayName'', PStr ''Sales'')]
             (PStr ''id'') = Some (PStr ''ws-42'')" by simp
  have e: "conf ?E = with_capacity" "calls ?w = []"
    by (simp_all add: demo_env_def start_def)
  note T = create_workspace_default_capacity
    [where i = "PStr ''ws-42''"
       and kvs = "[(PStr ''id'', PStr ''ws-42''), (PStr ''displayName'', PStr ''Sales'')]",
     OF c n a b]
  have A: "calls (snd (create_workspace ?E ''Sales'' None ?w)) =
       [token_request with_capacity,
        \<lparr>rmethod = POST, rurl = FABRIC_BASE @ ''/workspaces'',
         rheaders = headers ?E (PStr ''tok-1''),
         rbody = JsonData (PDict [(PStr ''displayName'', PStr ''Sales''),
                                  (PStr ''capacityId'', PStr ''cap-9'')])\<rparr>]"
    using T [THEN conjunct1] e by simp
  have "create_workspace ?E ''Sales'' None ?w =
          (Inr (PDict [(PStr ''workspace_id'', PStr ''ws-42'')]), snd ?p)"
    using T [THEN conjunct2] s j m by simp
  then have B: "fst (create_workspace ?E ''Sales'' None ?w) =
      Inr (PDict [(PStr ''workspace_id'', PStr ''ws-42'')])"
    by simp
  show ?thesis using A B by simp
qed

section \<open>Upstream failures\<close>

lemma not_created:
  "status_code resp \<noteq> 201 \<Longrightarrow> workspace_result resp = Inr (status_body resp)"
  "status_code resp \<noteq> 201 \<Longrightarrow> folder_result resp = Inr (status_body resp)"
  "status_code resp \<noteq> 201 \<Longrightarrow> pipeline_result resp = Inr (status_body resp)"
  by (simp_all add: workspace_result_def folder_result_def pipeline_result_def)

lemma workspaces_result_raises:
  assumes "400 \<le> status_code resp" "status_code resp < 600" "status_code resp \<noteq> 401"
  shows "\<exists>m. workspaces_result resp = Inl (HTTPError m)"
  using assms by (simp add: workspaces_result_def raise_for_status_def)

text \<open>
  C2, as amended. Once the token is acquired and the arguments are resolved: create
  workspace, create folder and create deployment pipeline return the status and the raw
  text of any upstream response whose status is not 201; assign workspace admin, create
  lakehouse, create warehouse, assign workspace to stage and assign pipeline admin return
  the status and the raw text of every upstream response; none of them raises. List
  workspaces raises HTTPError on every response whose status is in 400..599 and is
  not 401.
\<close>

theorem upstream_failure_passed_through:
  assumes "get_access_token env w = (Inr tok, w1)"
  shows
    "(py_or capacity_id (CAPACITY_ID (conf env)) = Some cid \<and> cid \<noteq> []
        \<and> post_json env (FABRIC_BASE @ ''/workspaces'') (workspace_payload name cid) tok w1
            = (Inr resp, w2)
        \<and> status_code resp \<noteq> 201 \<longrightarrow>
        create_workspace env name capacity_id w =
          (Inr (PDict [(PStr ''status'', PInt (status_code resp)),
                       (PStr ''body'', PStr (resp_text resp))]), w2))
     \<and> (post_json env (FABRIC_BASE @ ''/workspaces/'' @ workspace_id @ ''/folders'')
            (folder_payload folder_name parent_folder_id) tok w1 = (Inr resp, w2)
        \<and> status_code resp \<noteq> 201 \<longrightarrow>
        create_workspace_folder env workspace_id folder_name parent_folder_id w =
          (Inr (PDict [(PStr ''status'', PInt (status_code resp)),
                       (PStr ''body'', PStr (resp_text resp))]), w2))
     \<and> (post_json env (FABRIC_BASE @ ''/deploymentPipelines'')
            (pipeline_payload name description stages) tok w1 = (Inr resp, w2)
        \<and> status_code resp \<noteq> 201 \<longrightarrow>
        create_deployment_pipeline env name description stages w =
          (Inr (PDict [(PStr ''status'', PInt (status_code resp)),
                       (PStr ''body'', PStr (resp_text resp))]), w2))
     \<and> (py_or user_object_id (USER_OBJECT_ID (conf env)) = Some uid \<and> uid \<noteq> []
        \<and> post_json env (FABRIC_BASE @ ''/workspaces/'' @ workspace_id @ ''/roleAssignments'')
            (role_payload uid) tok w1 = (Inr resp, w2) \<longrightarrow>
        assign_workspace_admin env workspace_id user_object_id w =
          (Inr (PDict [(PStr ''status'', PInt (status_code resp)),
                       (PStr ''body'', PStr (resp_text resp))]), w2))
     \<and> (py_or user_object_id (USER_OBJECT_ID (conf env)) = Some uid \<and> uid \<noteq> []
        \<and> post_json env
            (FABRIC_BASE @ ''/deploymentPipelines/'' @ pipeline_id @ ''/roleAssignments'')
            (role_payload uid) tok w1 = (Inr resp, w2) \<longrightarrow>
        assign_pipeline_admin env pipeline_id user_object_id w =
          (Inr (PDict [(PStr ''status'', PInt (status_code resp)),
                       (PStr ''body'', PStr (resp_text resp))]), w2))
     \<and> (post_json env (FABRIC_BASE @ ''/workspaces/'' @ workspace_id @ ''/lakehouses'')
            (PDict [(PStr ''displayName'', PStr lakehouse_name)]) tok w1 = (Inr resp, w2) \<longrightarrow>
        create_lakehouse env workspace_id lakehouse_name w =
          (Inr (PDict [(PStr ''status'', PInt (status_code resp)),
                       (PStr ''body'', PStr (resp_text resp))]), w2))
     \<and> (post_json env (FABRIC_BASE @ ''/workspaces/'' @ workspace_id @ ''/warehouses'')
            (PDict [(PStr ''displayName'', PStr warehouse_name)]) tok w1 = (Inr resp, w2) \<longrightarrow>
        create_warehouse env workspace_id warehouse_name w =
          (Inr (PDict [(PStr ''status'', PInt (status_code resp)),
                       (PStr ''body'', PStr (resp_text resp))]), w2))
     \<and> (post_json env
            (FABRIC_BASE @ ''/deploymentPipelines/'' @ pipeline_id @ ''/stages/'' @ stage_id
             @ ''/assignWorkspace'')
            (PDict [(PStr ''workspaceId'', PStr workspace_id)]) tok w1 = (Inr resp, w2) \<longrightarrow>
        assign_workspace_to_stage env pipeline_id stage_id workspace_id w =
          (Inr (PDict [(PStr ''status'', PInt (status_code resp)),
                       (PStr ''body'', PStr (resp_text resp))]), w2))
     \<and> (send env (workspaces_request env tok) w1 = (Inr resp, w2)
        \<and> 400 \<le> status_code resp \<and> status_code resp < 600 \<and> status_code resp \<noteq> 401 \<longrightarrow>
        (\<exists>m. get_existing_workspaces env w = (Inl (HTTPError m), w2)))"
proof -
  let ?sb = "PDict [(PStr ''status'', PInt (status_code resp)),
                    (PStr ''body'', PStr (resp_text resp))]"
  have sb: "status_body resp = ?sb" by (simp add: status_body_def)
  have 1: "py_or capacity_id (CAPACITY_ID (conf env)) = Some cid \<and> cid \<noteq> []
        \<and> post_json env (FABRIC_BASE @ ''/workspaces'') (workspace_payload name cid) tok w1
            = (Inr resp, w2)
        \<and> status_code resp \<noteq> 201 \<longrightarrow>
        create_workspace env name capacity_id w = (Inr ?sb, w2)"
    using create_workspace_result [OF _ _ assms, of capacity_id cid name resp w2]
    by (auto simp: not_created sb)
  have 2: "post_json env (FABRIC_BASE @ ''/workspaces/'' @ workspace_id @ ''/folders'')
            (folder_payload folder_name parent_folder_id) tok w1 = (Inr resp, w2)
        \<and> status_code resp \<noteq> 201 \<longrightarrow>
        create_workspace_folder env workspace_id folder_name parent_folder_id w = (Inr ?sb, w2)"
    using create_workspace_folder_result [OF assms, of workspace_id folder_name parent_folder_id resp w2]
    by (auto simp: not_created sb)
  have 3: "post_json env (FABRIC_BASE @ ''/deploymentPipelines'')
            (pipeline_payload name description stages) tok w1 = (Inr resp, w2)
        \<and> status_code resp \<noteq> 201 \<longrightarrow>
        create_deployment_pipeline env name description stages w = (Inr ?sb, w2)"
    using create_deployment_pipeline_result [OF assms, of name description stages resp w2]
    by (auto simp: not_created sb)
  have 4: "py_or user_object_id (USER_OBJECT_ID (conf env)) = Some uid \<and> uid \<noteq> []
        \<and> post_json env (FABRIC_BASE @ ''/workspaces/'' @ workspace_id @ ''/roleAssignments'')
            (role_payload uid) tok w1 = (Inr resp, w2) \<longrightarrow>
        assign_workspace_admin env workspace_id user_object_id w = (Inr ?sb, w2)"
    using assign_workspace_admin_result [OF _ _ assms, of user_object_id uid workspace_id resp w2]
    by (auto simp: sb)
  have 5: "py_or user_object_id (USER_OBJECT_ID (conf env)) = Some uid \<and> uid \<noteq> []
        \<and> post_json env
            (FABRIC_BASE @ ''/deploymentPipelines/'' @ pipeline_id @ ''/roleAssignments'')
            (role_payload uid) tok w1 = (Inr resp, w2) \<longrightarrow>
        assign_pipeline_admin env pipeline_id user_object_id w = (Inr ?sb, w2)"
    using assign_pipeline_admin_result [OF _ _ assms, of user_object_id uid pipeline_id resp w2]
    by (auto simp: sb)
  have 6: "post_json env (FABRIC_BASE @ ''/workspaces/'' @ workspace_id @ ''/lakehouses'')
            (PDict [(PStr ''displayName'', PStr lakehouse_name)]) tok w1 = (Inr resp, w2) \<longrightarrow>
        create_lakehouse env workspace_id lakehouse_name w = (Inr ?sb, w2)"
    using create_lakehouse_result [OF assms, of workspace_id lakehouse_name resp w2]
    by (auto simp: sb)
  have 7: "post_json env (FABRIC_BASE @ ''/workspaces/'' @ workspace_id @ ''/warehouses'')
            (PDict [(PStr ''displayName'', PStr warehouse_name)]) tok w1 = (Inr resp, w2) \<longrightarrow>
        create_warehouse env workspace_id warehouse_name w = (Inr ?sb, w2)"
    using create_warehouse_result [OF assms, of workspace_id warehouse_name resp w2]
    by (auto simp: sb)
  have 8: "post_json env
            (FABRIC_BASE @ ''/deploymentPipelines/'' @ pipeline_id @ ''/stages/'' @ stage_id
             @ ''/assignWorkspace'')
            (PDict [(PStr ''workspaceId'', PStr workspace_id)]) tok w1 = (Inr resp, w2) \<longrightarrow>
        assign_workspace_to_stage env pipeline_id stage_id workspace_id w = (Inr ?sb, w2)"
    using assign_workspace_to_stage_result [OF assms, of pipeline_id stage_id workspace_id resp w2]
    by (auto simp: sb)
  have 9: "send env (workspaces_request env tok) w1 = (Inr resp, w2)
        \<and> 400 \<le> status_code resp \<and> status_code resp < 600 \<and> status_code resp \<noteq> 401 \<longrightarrow>
        (\<exists>m. get_existing_workspaces env w = (Inl (HTTPError m), w2))"
    using get_existing_workspaces_result [OF assms, of resp w2] workspaces_result_raises [of resp]
    by auto
  from 1 2 3 4 5 6 7 8 9 show ?thesis by blast
qed

text \<open>The theorem at a name conflict: create workspace hands back the 409 and its text.\<close>

theorem upstream_failure_passed_through_witness:
  \<open>fst (create_workspace (demo_env with_capacity) ''Sales'' None (start [token_ok, conflict])) =
     Inr (PDict [(PStr ''status'', PInt 409),
                 (PStr ''body'', PStr ''{"errorCode": "WorkspaceNameAlreadyExists"}'')])\<close>
proof -
  let ?E = "demo_env with_capacity"
  let ?w = "start [token_ok, conflict]"
  let ?w1 = "snd (get_access_token ?E ?w)"
  let ?p = "post_json ?E (FABRIC_BASE @ ''/workspaces'') (workspace_payload ''Sales'' ''cap-9'')
              (PStr ''tok-1'') ?w1"
  let ?R = "conflict\<lparr>url := FABRIC_BASE @ ''/workspaces''\<rparr>"
  have a: "get_access_token ?E ?w = (Inr (PStr ''tok-1''), ?w1)"
    by (simp add: prod_eq_iff demo_defs handler_defs with_capacity_def)
  have c: "py_or None (CAPACITY_ID (conf ?E)) = Some ''cap-9''"
    by (simp add: demo_env_def with_capacity_def py_or_def str_truthy_def)
  have "fst ?p = Inr ?R"
    by (simp add: demo_defs handler_defs with_capacity_def workspace_payload_def)
  then have b: "?p = (Inr ?R, snd ?p)" by (simp add: prod_eq_iff)
  have s: "status_code ?R = 409"
    and t: \<open>resp_text ?R = ''{"errorCode": "WorkspaceNameAlreadyExists"}''\<close>
    by (simp_all add: conflict_def reply_def)
  from upstream_failure_passed_through [OF a, where capacity_id = None and cid = "''cap-9''"
      and name = "''Sales''" and resp = ?R and ?w2.0 = "snd ?p"] c b s
  have "create_workspace ?E ''Sales'' None ?w =
          (Inr (PDict [(PStr ''status'', PInt (status_code ?R)),
                       (PStr ''body'', PStr (resp_text ?R))]), snd ?p)"
    by simp
  then show ?thesis by (simp add: s t)
qed

text \<open>
  C2 as the specification words it fails on list workspaces: a 500 from the upstream is
  raised as HTTPError, not returned as status and body.
\<close>

theorem list_workspaces_raises_counterexample:
  "fst (get_existing_workspaces (demo_env demo_conf) (start [token_ok, server_error])) =
     Inl (HTTPError (''500 Server Error: Internal Server Error for url: ''
                     @ ''https://api.fabric.microsoft.com/v1/workspaces''))"
  by (simp add: get_existing_workspaces_def workspaces_result_def workspaces_request_def
      server_error_def demo_defs handler_defs show_int_def show_nat.simps)

section \<open>The mapping from display names to ids\<close>

lemma comprehension_result:
  assumes "list_all2 (carries kf vf) xs pairs"
  shows "\<exists>d. dict_comp kf vf xs [] = Inr d \<and> distinct (map fst d)
           \<and> set (map fst d) = PStr ` fst ` set pairs
           \<and> (\<forall>n. map_of d (PStr n) = map_of (rev pairs) n)
           \<and> (distinct (map fst pairs) \<longrightarrow> d = str_dict pairs)"
proof -
  have d: "dict_comp kf vf xs [] = Inr (store_all pairs [])"
    by (rule dict_comp_carries [OF assms])
  have "distinct (map fst (store_all pairs []))"
    by (rule distinct_store_all) simp
  moreover have "set (map fst (store_all pairs [])) = PStr ` fst ` set pairs"
    using keys_store_all [of pairs "[]"] by simp
  moreover have "\<forall>n. map_of (store_all pairs []) (PStr n) = map_of (rev pairs) n"
    by (simp add: map_of_store_all split: option.splits)
  moreover have "distinct (map fst pairs) \<longrightarrow> store_all pairs [] = str_dict pairs"
    using store_all_distinct [of "[]" pairs] by (simp add: str_dict_def)
  ultimately show ?thesis using d by blast
qed

lemma workspaces_result_ok:
  assumes "200 \<le> status_code resp" "status_code resp < 300"
    and "json_body resp = Some (PDict kvs)"
  shows "workspaces_result resp =
     (case py_iter (case map_of kvs (PStr ''value'') of None \<Rightarrow> PList [] | Some v \<Rightarrow> v) of
        Inl e \<Rightarrow> Inl e
      | Inr items \<Rightarrow>
          (case dict_comp ''displayName'' ''id'' items [] of
             Inl e \<Rightarrow> Inl e
           | Inr d \<Rightarrow> Inr (PDict d)))"
  using assms by (simp add: workspaces_result_def raise_for_status_def py_get_def)

text \<open>
  C3. When the token has been acquired and the upstream answers the listing request with
  a 2xx status and a JSON object: for the payload of the specification the result is the
  dictionary \<open>A\<close> to \<open>1\<close>, \<open>B\<close> to \<open>2\<close>; for a \<open>value\<close> array whose entries
  carry \<open>displayName\<close> and \<open>id\<close> the result is a dictionary whose keys are exactly the
  display names, each mapped to the id of the last entry with that name (so that with
  distinct names it is the list of the pairs, in the order of the array); an empty or
  missing \<open>value\<close> array gives the empty dictionary.
\<close>

theorem list_workspaces_mapping:
  assumes "get_access_token env w = (Inr tok, w1)"
    and "send env (workspaces_request env tok) w1 = (Inr resp, w2)"
    and "200 \<le> status_code resp" and "status_code resp < 300"
    and "json_body resp = Some (PDict kvs)"
  shows
    "(kvs = [(PStr ''value'',
               PList [PDict [(PStr ''displayName'', PStr ''A''), (PStr ''id'', PStr ''1'')],
                      PDict [(PStr ''displayName'', PStr ''B''), (PStr ''id'', PStr ''2'')]])]
        \<longrightarrow> get_existing_workspaces env w =
              (Inr (PDict [(PStr ''A'', PStr ''1''), (PStr ''B'', PStr ''2'')]), w2))
     \<and> (map_of kvs (PStr ''value'') = Some (PList xs)
          \<and> list_all2 (carries ''displayName'' ''id'') xs pairs \<longrightarrow>
          (\<exists>d. get_existing_workspaces env w = (Inr (PDict d), w2)
             \<and> distinct (map fst d)
             \<and> set (map fst d) = PStr ` fst ` set pairs
             \<and> (\<forall>n. map_of d (PStr n) = map_of (rev pairs) n)
             \<and> (distinct (map fst pairs) \<longrightarrow> d = str_dict pairs)))
     \<and> (map_of kvs (PStr ''value'') = None \<or> map_of kvs (PStr ''value'') = Some (PList [])
          \<longrightarrow> get_existing_workspaces env w = (Inr (PDict []), w2))"
proof -
  note g = get_existing_workspaces_result [OF assms(1,2)]
  note r = workspaces_result_ok [OF assms(3,4,5)]
  have 1: "kvs = [(PStr ''value'',
               PList [PDict [(PStr ''displayName'', PStr ''A''), (PStr ''id'', PStr ''1'')],
                      PDict [(PStr ''displayName'', PStr ''B''), (PStr ''id'', PStr ''2'')]])]
        \<longrightarrow> get_existing_workspaces env w =
              (Inr (PDict [(PStr ''A'', PStr ''1''), (PStr ''B'', PStr ''2'')]), w2)"
    by (simp add: g r py_getitem_def)
  have 2: "map_of kvs (PStr ''value'') = Some (PList xs)
          \<and> list_all2 (carries ''displayName'' ''id'') xs pairs \<longrightarrow>
          (\<exists>d. get_existing_workspaces env w = (Inr (PDict d), w2)
             \<and> distinct (map fst d)
             \<and> set (map fst d) = PStr ` fst ` set pairs
             \<and> (\<forall>n. map_of d (PStr n) = map_of (rev pairs) n)
             \<and> (distinct (map fst pairs) \<longrightarrow> d = str_dict pairs))"
  proof (intro impI, elim conjE)
    assume v: "map_of kvs (PStr ''value'') = Some (PList xs)"
      and c: "list_all2 (carries ''displayName'' ''id'') xs pairs"
    from comprehension_result [OF c] obtain d where
      d: "dict_comp ''displayName'' ''id'' xs [] = Inr d" and
      p: "distinct (map fst d)" "set (map fst d) = PStr ` fst ` set pairs"
         "\<forall>n. map_of d (PStr n) = map_of (rev pairs) n"
         "distinct (map fst pairs) \<longrightarrow> d = str_dict pairs"
      by blast
    have "get_existing_workspaces env w = (Inr (PDict d), w2)"
      by (simp add: g r v d)
    with p show "\<exists>d. get_existing_workspaces env w = (Inr (PDict d), w2)
             \<and> distinct (map fst d)
             \<and> set (map fst d) = PStr ` fst ` set pairs
             \<and> (\<forall>n. map_of d (PStr n) = map_of (rev pairs) n)
             \<and> (distinct (map fst pairs) \<longrightarrow> d = str_dict pairs)"
      by blast
  qed
  have 3: "map_of kvs (PStr ''value'') = None \<or> map_of kvs (PStr ''value'') = Some (PList [])
          \<longrightarrow> get_existing_workspaces env w = (Inr (PDict []), w2)"
    by (auto simp: g r)
  from 1 2 3 show ?thesis by blast
qed

text \<open>The theorem on a scripted transport that answers with the payload of the specification.\<close>

theorem list_workspaces_mapping_witness:
  "fst (get_existing_workspaces (demo_env demo_conf) (start [token_ok, two_workspaces])) =
     Inr (PDict [(PStr ''A'', PStr ''1''), (PStr ''B'', PStr ''2'')])"
proof -
  let ?E = "demo_env demo_conf"
  let ?w = "start [token_ok, two_workspaces]"
  let ?w1 = "snd (get_access_token ?E ?w)"
  let ?s = "send ?E (workspaces_request ?E (PStr ''tok-1'')) ?w1"
  let ?R = "two_workspaces\<lparr>url := FABRIC_BASE @ ''/workspaces''\<rparr>"
  let ?kvs = "[(PStr ''value'',
               PList [PDict [(PStr ''displayName'', PStr ''A''), (PStr ''id'', PStr ''1'')],
                      PDict [(PStr ''displayName'', PStr ''B''), (PStr ''id'', PStr ''2'')]])]"
  have a: "get_access_token ?E ?w = (Inr (PStr ''tok-1''), ?w1)"
    by (simp add: prod_eq_iff demo_defs handler_defs)
  have "fst ?s = Inr ?R"
    by (simp add: demo_defs handler_defs workspaces_request_def)
  then have b: "?s = (Inr ?R, snd ?s)" by (simp add: prod_eq_iff)
  have lo: "200 \<le> status_code ?R" and hi: "status_code ?R < 300"
    and j: "json_body ?R = Some (PDict ?kvs)"
    by (simp_all add: two_workspaces_def reply_def)
  from list_workspaces_mapping [OF a b lo hi j, THEN conjunct1]
  have "get_existing_workspaces ?E ?w =
          (Inr (PDict [(PStr ''A'', PStr ''1''), (PStr ''B'', PStr ''2'')]), snd ?s)"
    by simp
  then show ?thesis by simp
qed

section \<open>Creating a deployment pipeline\<close>

lemma pipeline_result_created:
  assumes "status_code resp = 201" and "json_body resp = Some (PDict kvs)"
    and "map_of kvs (PStr ''id'') = Some pid"
    and "map_of kvs (PStr ''stages'') = Some (PList xs)"
    and "dict_comp ''displayName'' ''id'' xs [] = Inr d"
  shows "pipeline_result resp =
           Inr (PDict [(PStr ''pipeline_id'', pid), (PStr ''stages'', PDict d)])"
  using assms by (simp add: pipeline_result_def py_get_def)

text \<open>
  C5. Create deployment pipeline posts, after the token request, the body whose
  \<open>stages\<close> array holds for each input name \<open>s\<close>, in the given order, the object with
  \<open>displayName\<close> \<open>s\<close>, \<open>description\<close> ``\<open>s\<close> stage'' and \<open>isPublic\<close> false. When
  the upstream answers 201 with an object that has an \<open>id\<close> and a \<open>stages\<close> array whose
  entries carry \<open>displayName\<close> and \<open>id\<close>, the result holds that id as \<open>pipeline_id\<close>
  and, as \<open>stages\<close>, the dictionary whose keys are the returned display names, each
  mapped to the id the upstream gave it (with distinct names: the pairs in the order
  returned).
\<close>

theorem create_deployment_pipeline_stages:
  assumes "get_access_token env w = (Inr tok, w1)"
    and "post_json env (FABRIC_BASE @ ''/deploymentPipelines'')
           (PDict [(PStr ''displayName'', PStr name), (PStr ''description'', PStr description),
                   (PStr ''stages'',
                    PList (map (\<lambda>s. PDict [(PStr ''displayName'', PStr s),
                                            (PStr ''description'', PStr (s @ '' stage'')),
                                            (PStr ''isPublic'', PBool False)]) stages))])
           tok w1 = (Inr resp, w2)"
  shows
    "calls (snd (create_deployment_pipeline env name description stages w)) =
       calls w @
       [token_request (conf env),
        \<lparr>rmethod = POST, rurl = FABRIC_BASE @ ''/deploymentPipelines'',
         rheaders = headers env tok,
         rbody = JsonData
           (PDict [(PStr ''displayName'', PStr name), (PStr ''description'', PStr description),
                   (PStr ''stages'',
                    PList (map (\<lambda>s. PDict [(PStr ''displayName'', PStr s),
                                            (PStr ''description'', PStr (s @ '' stage'')),
                                            (PStr ''isPublic'', PBool False)]) stages))])\<rparr>]
     \<and> (status_code resp = 201 \<and> json_body resp = Some (PDict kvs)
          \<and> map_of kvs (PStr ''id'') = Some pid
          \<and> map_of kvs (PStr ''stages'') = Some (PList xs)
          \<and> list_all2 (carries ''displayName'' ''id'') xs pairs \<longrightarrow>
          (\<exists>d. create_deployment_pipeline env name description stages w =
                  (Inr (PDict [(PStr ''pipeline_id'', pid), (PStr ''stages'', PDict d)]), w2)
             \<and> distinct (map fst d)
             \<and> set (map fst d) = PStr ` fst ` set pairs
             \<and> (\<forall>n. map_of d (PStr n) = map_of (rev pairs) n)
             \<and> (distinct (map fst pairs) \<longrightarrow> d = str_dict pairs)))"
proof -
  have pl: "pipeline_payload name description stages =
      PDict [(PStr ''displayName'', PStr name), (PStr ''description'', PStr description),
             (PStr ''stages'',
              PList (map (\<lambda>s. PDict [(PStr ''displayName'', PStr s),
                                      (PStr ''description'', PStr (s @ '' stage'')),
                                      (PStr ''isPublic'', PBool False)]) stages))]"
    by (simp add: pipeline_payload_def stage_object_def)
  have p: "post_json env (FABRIC_BASE @ ''/deploymentPipelines'')
             (pipeline_payload name description stages) tok w1 = (Inr resp, w2)"
    using assms(2) by (simp add: pl)
  note ok = post_json_accepted [OF p]
  note g = create_deployment_pipeline_result [OF assms(1) p]
  have 1: "calls (snd (create_deployment_pipeline env name description stages w)) =
       calls w @
       [token_request (conf env),
        \<lparr>rmethod = POST, rurl = FABRIC_BASE @ ''/deploymentPipelines'',
         rheaders = headers env tok,
         rbody = JsonData
           (PDict [(PStr ''displayName'', PStr name), (PStr ''description'', PStr description),
                   (PStr ''stages'',
                    PList (map (\<lambda>s. PDict [(PStr ''displayName'', PStr s),
                                            (PStr ''description'', PStr (s @ '' stage'')),
                                            (PStr ''isPublic'', PBool False)]) stages))])\<rparr>]"
    using create_deployment_pipeline_trace [OF assms(1), of name description stages] ok
    by (simp add: upstream_request_def pl)
  have 2: "status_code resp = 201 \<and> json_body resp = Some (PDict kvs)
          \<and> map_of kvs (PStr ''id'') = Some pid
          \<and> map_of kvs (PStr ''stages'') = Some (PList xs)
          \<and> list_all2 (carries ''displayName'' ''id'') xs pairs \<longrightarrow>
          (\<exists>d. create_deployment_pipeline env name description stages w =
                  (Inr (PDict [(PStr ''pipeline_id'', pid), (PStr ''stages'', PDict d)]), w2)
             \<and> distinct (map fst d)
             \<and> set (map fst d) = PStr ` fst ` set pairs
             \<and> (\<forall>n. map_of d (PStr n) = map_of (rev pairs) n)
             \<and> (distinct (map fst pairs) \<longrightarrow> d = str_dict pairs))"
  proof (intro impI, elim conjE)
    assume s: "status_code resp = 201" and j: "json_body resp = Some (PDict kvs)"
      and i: "map_of kvs (PStr ''id'') = Some pid"
      and v: "map_of kvs (PStr ''stages'') = Some (PList xs)"
      and c: "list_all2 (carries ''displayName'' ''id'') xs pairs"
    from comprehension_result [OF c] obtain d where
      d: "dict_comp ''displayName'' ''id'' xs [] = Inr d" and
      q: "distinct (map fst d)" "set (map fst d) = PStr ` fst ` set pairs"
         "\<forall>n. map_of d (PStr n) = map_of (rev pairs) n"
         "distinct (map fst pairs) \<longrightarrow> d = str_dict pairs"
      by blast
    have "create_deployment_pipeline env name description stages w =
            (Inr (PDict [(PStr ''pipeline_id'', pid), (PStr ''stages'', PDict d)]), w2)"
      by (simp add: g pipeline_result_created [OF s j i v d])
    with q show "\<exists>d. create_deployment_pipeline env name description stages w =
                  (Inr (PDict [(PStr ''pipeline_id'', pid), (PStr ''stages'', PDict d)]), w2)
             \<and> distinct (map fst d)
             \<and> set (map fst d) = PStr ` fst ` set pairs
             \<and> (\<forall>n. map_of d (PStr n) = map_of (rev pairs) n)
             \<and> (distinct (map fst pairs) \<longrightarrow> d = str_dict pairs)"
      by blast
  qed
  from 1 2 show ?thesis by blast
qed

text \<open>
  The theorem at the stages \<open>Dev\<close>, \<open>Test\<close>, \<open>Prod\<close>, with an upstream that assigns
  the ids \<open>d1\<close>, \<open>t1\<close>, \<open>p1\<close>.
\<close>

theorem create_deployment_pipeline_stages_witness:
  "fst (create_deployment_pipeline (demo_env demo_conf) ''Release'' ''main line''
          [''Dev'', ''Test'', ''Prod''] (start [token_ok, created_pipeline])) =
     Inr (PDict [(PStr ''pipeline_id'', PStr ''pl-1''),
                 (PStr ''stages'',
                  PDict [(PStr ''Dev'', PStr ''d1''), (PStr ''Test'', PStr ''t1''),
                         (PStr ''Prod'', PStr ''p1'')])])
   \<and> calls (snd (create_deployment_pipeline (demo_env demo_conf) ''Release'' ''main line''
          [''Dev'', ''Test'', ''Prod''] (start [token_ok, created_pipeline]))) =
     [token_request demo_conf,
      \<lparr>rmethod = POST, rurl = FABRIC_BASE @ ''/deploymentPipelines'',
       rheaders = headers (demo_env demo_conf) (PStr ''tok-1''),
       rbody = JsonData
         (PDict [(PStr ''displayName'', PStr ''Release''), (PStr ''description'', PStr ''main line''),
                 (PStr ''stages'',
                  PList [PDict [(PStr ''displayName'', PStr ''Dev''),
                                (PStr ''description'', PStr ''Dev stage''),
                                (PStr ''isPublic'', PBool False)],
                         PDict [(PStr ''displayName'', PStr ''Test''),
                                (PStr ''description'', PStr ''Test stage''),
                                (PStr ''isPublic'', PBool False)],
                         PDict [(PStr ''displayName'', PStr ''Prod''),
                                (PStr ''description'', PStr ''Prod stage''),
                                (PStr ''isPublic'', PBool False)]])])\<rparr>]"
proof -
  let ?E = "demo_env demo_conf"
  let ?w = "start [token_ok, created_pipeline]"
  let ?w1 = "snd (get_access_token ?E ?w)"
  let ?body = "PDict [(PStr ''displayName'', PStr ''Release''), (PStr ''description'', PStr ''main line''),
                   (PStr ''stages'',
                    PList (map (\<lambda>s. PDict [(PStr ''displayName'', PStr s),
                                            (PStr ''description'', PStr (s @ '' stage'')),
                                            (PStr ''isPublic'', PBool False)])
                            [''Dev'', ''Test'', ''Prod'']))]"
  let ?p = "post_json ?E (FABRIC_BASE @ ''/deploymentPipelines'') ?body (PStr ''tok-1'') ?w1"
  let ?R = "created_pipeline\<lparr>url := FABRIC_BASE @ ''/deploymentPipelines''\<rparr>"
  let ?xs = "[PDict [(PStr ''displayName'', PStr ''Dev''), (PStr ''id'', PStr ''d1'')],
              PDict [(PStr ''displayName'', PStr ''Test''), (PStr ''id'', PStr ''t1'')],
              PDict [(PStr ''displayName'', PStr ''Prod''), (PStr ''id'', PStr ''p1'')]]"
  let ?kvs = "[(PStr ''id'', PStr ''pl-1''), (PStr ''stages'', PList ?xs)]"
  let ?pairs = "[(''Dev'', PStr ''d1''), (''Test'', PStr ''t1''), (''Prod'', PStr ''p1'')]"
  have a: "get_access_token ?E ?w = (Inr (PStr ''tok-1''), ?w1)"
    by (simp add: prod_eq_iff demo_defs handler_defs)
  have "fst ?p = Inr ?R"
    by (simp add: demo_defs handler_defs)
  then have b: "?p = (Inr ?R, snd ?p)" by (simp add: prod_eq_iff)
  have s: "status_code ?R = 201" and j: "json_body ?R = Some (PDict ?kvs)"
    by (simp_all add: created_pipeline_def reply_def)
  have i: "map_of ?kvs (PStr ''id'') = Some (PStr ''pl-1'')"
    and v: "map_of ?kvs (PStr ''stages'') = Some (PList ?xs)" by simp_all
  have c: "list_all2 (carries ''displayName'' ''id'') ?xs ?pairs"
    by (simp add: carries_def)
  have dp: "distinct (map fst ?pairs)" by simp
  have e: "conf ?E = demo_conf" "calls ?w = []"
    by (simp_all add: demo_env_def start_def)
  note T = create_deployment_pipeline_stages [OF a b, where kvs = ?kvs and pid = "PStr ''pl-1''"
      and xs = ?xs and pairs = ?pairs]
  have A: "calls (snd (create_deployment_pipeline ?E ''Release'' ''main line''
             [''Dev'', ''Test'', ''Prod''] ?w)) =
     [token_request demo_conf,
      \<lparr>rmethod = POST, rurl = FABRIC_BASE @ ''/deploymentPipelines'',
       rheaders = headers ?E (PStr ''tok-1''), rbody = JsonData ?body\<rparr>]"
    using T [THEN conjunct1] e by simp
  from T [THEN conjunct2] s j i v c dp
  obtain d where "create_deployment_pipeline ?E ''Release'' ''main line''
             [''Dev'', ''Test'', ''Prod''] ?w =
          (Inr (PDict [(PStr ''pipeline_id'', PStr ''pl-1''), (PStr ''stages'', PDict d)]), snd ?p)"
    and "d = str_dict ?pairs"
    by blast
  then have B: "fst (create_deployment_pipeline ?E ''Release'' ''main line''
             [''Dev'', ''Test'', ''Prod''] ?w) =
     Inr (PDict [(PStr ''pipeline_id'', PStr ''pl-1''),
                 (PStr ''stages'',
                  PDict [(PStr ''Dev'', PStr ''d1''), (PStr ''Test'', PStr ''t1''),
                         (PStr ''Prod'', PStr ''p1'')])])"
    by (simp add: str_dict_def)
  show ?thesis using A B by simp
qed

section \<open>Token acquisition\<close>

text \<open>
  C4, as amended. Let \<open>resp\<close> be the response of the identity endpoint. The acquisition
  returns \<open>tok\<close> exactly when the status is outside 400..599, the body decodes to a JSON
  object and its \<open>access_token\<close> is \<open>tok\<close> and is truthy (not null, empty, zero or
  false). On a status in 400..599 it fails with a RuntimeError whose message holds
  \<open>Status=\<close> with the status code and \<open>Body=\<close> with the raw text of the response. On a
  status outside 400..599 with a JSON object whose \<open>access_token\<close> is missing or falsy it
  fails with a RuntimeError that holds the re-serialised object. The outcome is computed
  without the client secret: a configuration that differs in the secret only gives, on
  the same response, the same outcome.
\<close>

theorem token_acquisition_outcomes:
  assumes "send env (token_request (conf env)) w = (Inr resp, w1)"
  shows
    "(get_access_token env w = (Inr tok, w1) \<longleftrightarrow>
        \<not> (400 \<le> status_code resp \<and> status_code resp < 600)
        \<and> (\<exists>kvs. json_body resp = Some (PDict kvs)
               \<and> map_of kvs (PStr ''access_token'') = Some tok)
        \<and> truthy tok)
     \<and> (400 \<le> status_code resp \<and> status_code resp < 600 \<longrightarrow>
        get_access_token env w =
          (Inl (RuntimeError
             (''Token request failed: ''
              @ (show_int (status_code resp)
                 @ (if status_code resp < 500 then '' Client Error: '' else '' Server Error: '')
                 @ reason resp @ '' for url: '' @ url resp)
              @ ''\<newline>'' @ ''Status='' @ show_int (status_code resp)
              @ ''\<newline>'' @ ''Body='' @ resp_text resp
              @ ''\<newline>'' @ ''Tenant='' @ TENANT_ID (conf env)
              @ '' ClientId='' @ take 6 (CLIENT_ID (conf env)) @ ''... ''
              @ ''EnvSource='' @ ENV_SOURCE (conf env))), w1))
     \<and> (\<not> (400 \<le> status_code resp \<and> status_code resp < 600)
        \<and> json_body resp = Some (PDict kvs)
        \<and> \<not> truthy (case map_of kvs (PStr ''access_token'') of None \<Rightarrow> PNone | Some t \<Rightarrow> t)
        \<longrightarrow>
        get_access_token env w =
          (Inl (RuntimeError (''No access_token in response: '' @ json_dumps env (PDict kvs))),
           w1))
     \<and> (send (env\<lparr>conf := (conf env)\<lparr>CLIENT_SECRET := s\<rparr>\<rparr>)
              (token_request ((conf env)\<lparr>CLIENT_SECRET := s\<rparr>)) w' = (Inr resp, w1') \<longrightarrow>
        fst (get_access_token (env\<lparr>conf := (conf env)\<lparr>CLIENT_SECRET := s\<rparr>\<rparr>) w')
          = fst (get_access_token env w))"
proof -
  have 1: "get_access_token env w = (Inr tok, w1) \<longleftrightarrow>
        \<not> (400 \<le> status_code resp \<and> status_code resp < 600)
        \<and> (\<exists>kvs. json_body resp = Some (PDict kvs)
               \<and> map_of kvs (PStr ''access_token'') = Some tok)
        \<and> truthy tok"
    using assms
    by (auto simp: get_access_token_def raise_for_status_def py_get_def
        split: option.splits pyval.splits)
  have 2: "400 \<le> status_code resp \<and> status_code resp < 600 \<longrightarrow>
        get_access_token env w =
          (Inl (RuntimeError
             (''Token request failed: ''
              @ (show_int (status_code resp)
                 @ (if status_code resp < 500 then '' Client Error: '' else '' Server Error: '')
                 @ reason resp @ '' for url: '' @ url resp)
              @ ''\<newline>'' @ ''Status='' @ show_int (status_code resp)
              @ ''\<newline>'' @ ''Body='' @ resp_text resp
              @ ''\<newline>'' @ ''Tenant='' @ TENANT_ID (conf env)
              @ '' ClientId='' @ take 6 (CLIENT_ID (conf env)) @ ''... ''
              @ ''EnvSource='' @ ENV_SOURCE (conf env))), w1)"
    using assms
    by (simp add: get_access_token_def raise_for_status_def token_failure_def)
  have 3: "\<not> (400 \<le> status_code resp \<and> status_code resp < 600)
        \<and> json_body resp = Some (PDict kvs)
        \<and> \<not> truthy (case map_of kvs (PStr ''access_token'') of None \<Rightarrow> PNone | Some t \<Rightarrow> t)
        \<longrightarrow>
        get_access_token env w =
          (Inl (RuntimeError (''No access_token in response: '' @ json_dumps env (PDict kvs))),
           w1)"
    using assms
    by (auto simp: get_access_token_def raise_for_status_def py_get_def)
  have 4: "send (env\<lparr>conf := (conf env)\<lparr>CLIENT_SECRET := s\<rparr>\<rparr>)
              (token_request ((conf env)\<lparr>CLIENT_SECRET := s\<rparr>)) w' = (Inr resp, w1') \<longrightarrow>
        fst (get_access_token (env\<lparr>conf := (conf env)\<lparr>CLIENT_SECRET := s\<rparr>\<rparr>) w')
          = fst (get_access_token env w)"
    using assms
    by (auto simp: get_access_token_def token_failure_def
        split: sum.splits error.splits option.splits)
  from 1 2 3 4 show ?thesis by blast
qed

text \<open>The theorem at a token handed out and at credentials refused.\<close>

theorem token_acquisition_outcomes_witness:
  \<open>fst (get_access_token (demo_env demo_conf) (start [token_ok])) = Inr (PStr ''tok-1'')
   \<and> fst (get_access_token (demo_env demo_conf) (start [denied])) =
       Inl (RuntimeError
         (''Token request failed: 401 Client Error: Unauthorized for url: ''
          @ ''https://login.microsoftonline.com/contoso/oauth2/v2.0/token''
          @ ''\<newline>Status=401''
          @ ''\<newline>Body={"error": "invalid_client"}''
          @ ''\<newline>Tenant=contoso ClientId=0a1b2c... EnvSource=/srv/.env''))\<close>
proof -
  let ?E = "demo_env demo_conf"
  let ?a = "send ?E (token_request (conf ?E)) (start [token_ok])"
  let ?b = "send ?E (token_request (conf ?E)) (start [denied])"
  let ?U = "''https://login.microsoftonline.com/contoso/oauth2/v2.0/token''"
  let ?Ra = "token_ok\<lparr>url := ?U\<rparr>"
  let ?Rb = "denied\<lparr>url := ?U\<rparr>"
  have "fst ?a = Inr ?Ra" and "fst ?b = Inr ?Rb"
    by (simp_all add: demo_defs handler_defs)
  then have a: "?a = (Inr ?Ra, snd ?a)" and b: "?b = (Inr ?Rb, snd ?b)"
    by (simp_all add: prod_eq_iff)
  have ra: "status_code ?Ra = 200"
    "json_body ?Ra = Some (PDict [(PStr ''access_token'', PStr ''tok-1'')])"
    by (simp_all add: token_ok_def reply_def)
  have rb: "status_code ?Rb = 401" "reason ?Rb = ''Unauthorized''"
    "url ?Rb = ''https://login.microsoftonline.com/contoso/oauth2/v2.0/token''"
    \<open>resp_text ?Rb = ''{"error": "invalid_client"}''\<close>
    by (simp_all add: denied_def reply_def)
  have c: "TENANT_ID (conf ?E) = ''contoso''" "CLIENT_ID (conf ?E) = ''0a1b2c3d-app''"
    "ENV_SOURCE (conf ?E) = ''/srv/.env''"
    by (simp_all add: demo_env_def demo_conf_def)
  have "get_access_token ?E (start [token_ok]) = (Inr (PStr ''tok-1''), snd ?a)"
    using token_acquisition_outcomes [OF a, THEN conjunct1, of "PStr ''tok-1''"] ra by simp
  then have A: "fst (get_access_token ?E (start [token_ok])) = Inr (PStr ''tok-1'')" by simp
  have B: \<open>fst (get_access_token ?E (start [denied])) =
       Inl (RuntimeError
         (''Token request failed: 401 Client Error: Unauthorized for url: ''
          @ ''https://login.microsoftonline.com/contoso/oauth2/v2.0/token''
          @ ''\<newline>Status=401''
          @ ''\<newline>Body={"error": "invalid_client"}''
          @ ''\<newline>Tenant=contoso ClientId=0a1b2c... EnvSource=/srv/.env''))\<close>
    using token_acquisition_outcomes [OF b, THEN conjunct2, THEN conjunct1]
    by (simp add: rb c show_int_def show_nat.simps)
  from A B show ?thesis by simp
qed

text \<open>
  C4 as the specification words it fails three times: a 300 response that carries an
  \<open>access_token\<close> yields the token although the status is not 2xx; a 200 response whose
  \<open>access_token\<close> field is there but empty fails; and a 400 response whose text repeats
  the secret puts the secret into the failure message.
\<close>

theorem token_acquisition_counterexample:
  \<open>fst (get_access_token (demo_env demo_conf) (start [multiple_choices])) = Inr (PStr ''tok-1'')
   \<and> fst (get_access_token (demo_env demo_conf) (start [empty_token])) =
       Inl (RuntimeError
         (''No access_token in response: {\<newline>  "access_token": ""\<newline>}''))
   \<and> sublist (CLIENT_SECRET demo_conf)
        (failure_message (fst (get_access_token (demo_env demo_conf) (start [echoing]))))\<close>
  by (simp add: multiple_choices_def empty_token_def echoing_def failure_message_def
      demo_defs handler_defs show_int_def show_nat.simps sublist_Cons_right)

section \<open>Create is not idempotent\<close>

lemma alloc_token:
  "get_access_token (alloc_env c) w =
     (Inr (PStr ''tok-1''), \<lparr>upstream = upstream w, calls = calls w @ [token_request c]\<rparr>)"
  by (simp add: alloc_env_def allocating_def demo_defs handler_defs)

lemma alloc_create_workspace:
  assumes "cid \<noteq> []"
  shows "create_workspace (alloc_env c) name (Some cid) w =
     (Inr (PDict [(PStr ''workspace_id'', PInt (int (upstream w)))]),
      \<lparr>upstream = Suc (upstream w),
       calls = calls w @
         [token_request c,
          upstream_request (alloc_env c) (FABRIC_BASE @ ''/workspaces'')
            (workspace_payload name cid) (PStr ''tok-1'')]\<rparr>)"
proof -
  have ok: "refusal (headers (alloc_env c) (PStr ''tok-1'')) = None"
    by (simp add: refusal_none py_str_def CR_def LF_def)
  show ?thesis
    using assms
    by (simp add: create_workspace_def alloc_token py_or_def str_truthy_def post_json_def
        send_def ok workspace_result_def py_get_def upstream_request_def)
       (simp add: alloc_env_def allocating_def reply_def py_get_def workspace_result_def)
qed

text \<open>
  C9. Against the upstream that allocates the next unused id on every creation, two
  calls of create workspace with the same name and capacity id, one after the other,
  return the ids \<open>n\<close> and \<open>n + 1\<close>, which differ. And whatever the arguments, two
  invocations that receive the same upstream response return the same result.
\<close>

theorem create_workspace_not_idempotent:
  assumes "cid \<noteq> []"
  shows
    "fst (create_workspace (alloc_env c) name (Some cid) w) =
       Inr (PDict [(PStr ''workspace_id'', PInt (int (upstream w)))])
     \<and> fst (create_workspace (alloc_env c) name (Some cid)
             (snd (create_workspace (alloc_env c) name (Some cid) w))) =
       Inr (PDict [(PStr ''workspace_id'', PInt (int (upstream w) + 1))])
     \<and> fst (create_workspace (alloc_env c) name (Some cid) w) \<noteq>
       fst (create_workspace (alloc_env c) name (Some cid)
             (snd (create_workspace (alloc_env c) name (Some cid) w)))
     \<and> (get_access_token env v = (Inr tok, v1)
        \<and> post_json env (FABRIC_BASE @ ''/workspaces'') (workspace_payload name cid) tok v1
            = (Inr resp, v2)
        \<and> cid' \<noteq> []
        \<and> get_access_token env' v' = (Inr tok', v1')
        \<and> post_json env' (FABRIC_BASE @ ''/workspaces'') (workspace_payload name' cid') tok' v1'
            = (Inr resp, v2')
        \<longrightarrow> fst (create_workspace env name (Some cid) v) =
            fst (create_workspace env' name' (Some cid') v'))"
proof -
  have 1: "fst (create_workspace (alloc_env c) name (Some cid) w) =
       Inr (PDict [(PStr ''workspace_id'', PInt (int (upstream w)))])"
    by (simp add: alloc_create_workspace [OF assms])
  have 2: "fst (create_workspace (alloc_env c) name (Some cid)
             (snd (create_workspace (alloc_env c) name (Some cid) w))) =
       Inr (PDict [(PStr ''workspace_id'', PInt (int (upstream w) + 1))])"
    by (simp add: alloc_create_workspace [OF assms])
  have 3: "get_access_token env v = (Inr tok, v1)
        \<and> post_json env (FABRIC_BASE @ ''/workspaces'') (workspace_payload name cid) tok v1
            = (Inr resp, v2)
        \<and> cid' \<noteq> []
        \<and> get_access_token env' v' = (Inr tok', v1')
        \<and> post_json env' (FABRIC_BASE @ ''/workspaces'') (workspace_payload name' cid') tok' v1'
            = (Inr resp, v2')
        \<longrightarrow> fst (create_workspace env name (Some cid) v) =
            fst (create_workspace env' name' (Some cid') v')"
  proof (intro impI, elim conjE)
    assume a: "get_access_token env v = (Inr tok, v1)"
      and b: "post_json env (FABRIC_BASE @ ''/workspaces'') (workspace_payload name cid) tok v1
              = (Inr resp, v2)"
      and n: "cid' \<noteq> []"
      and a': "get_access_token env' v' = (Inr tok', v1')"
      and b': "post_json env' (FABRIC_BASE @ ''/workspaces'') (workspace_payload name' cid') tok' v1'
              = (Inr resp, v2')"
    have r: "py_or (Some cid) (CAPACITY_ID (conf env)) = Some cid"
      and r': "py_or (Some cid') (CAPACITY_ID (conf env')) = Some cid'"
      using assms n by (simp_all add: py_or_def str_truthy_def)
    show "fst (create_workspace env name (Some cid) v) =
            fst (create_workspace env' name' (Some cid') v')"
      by (simp add: create_workspace_result [OF r assms a b]
          create_workspace_result [OF r' n a' b'])
  qed
  from 1 2 3 show ?thesis by simp
qed

text \<open>The theorem at an upstream whose next id is 7: the two calls return 7 and 8.\<close>

theorem create_workspace_not_idempotent_witness:
  "fst (create_workspace (alloc_env with_capacity) ''Sales'' (Some ''cap-9'') (start 7)) =
     Inr (PDict [(PStr ''workspace_id'', PInt 7)])
   \<and> fst (create_workspace (alloc_env with_capacity) ''Sales'' (Some ''cap-9'')
           (snd (create_workspace (alloc_env with_capacity) ''Sales'' (Some ''cap-9'') (start 7)))) =
     Inr (PDict [(PStr ''workspace_id'', PInt 8)])"
proof -
  have n: "''cap-9'' \<noteq> []" by simp
  have u: "upstream (start (7::nat)) = 7" by (simp add: start_def)
  note T = create_workspace_not_idempotent [OF n, of with_capacity "''Sales''" "start 7"]
  have A: "fst (create_workspace (alloc_env with_capacity) ''Sales'' (Some ''cap-9'') (start 7)) =
     Inr (PDict [(PStr ''workspace_id'', PInt 7)])"
    using T [THEN conjunct1] u by simp
  have B: "fst (create_workspace (alloc_env with_capacity) ''Sales'' (Some ''cap-9'')
           (snd (create_workspace (alloc_env with_capacity) ''Sales'' (Some ''cap-9'') (start 7)))) =
     Inr (PDict [(PStr ''workspace_id'', PInt 8)])"
    using T [THEN conjunct2, THEN conjunct1] u by simp
  from A B show ?thesis by (rule conjI)
qed

section \<open>Empty strings as arguments\<close>

lemma made_append: "calls w' = calls w @ xs \<Longrightarrow> made w w' = xs"
  by (simp add: made_def)

lemma made_same [simp]: "made w w = []"
  by (simp add: made_def)

lemma py_or_defaulted:
  "py_or None b = b" "py_or (Some []) b = b"
  by (simp_all add: py_or_def str_truthy_def)

lemma create_workspace_bodies:
  assumes "rq \<in> set (made w (snd (create_workspace env name capacity_id w)))"
    and "rbody rq = JsonData body"
  shows "\<exists>cid. py_or capacity_id (CAPACITY_ID (conf env)) = Some cid \<and> cid \<noteq> []
           \<and> body = workspace_payload name cid"
proof (cases "py_or capacity_id (CAPACITY_ID (conf env))")
  case None
  then show ?thesis using assms by (simp add: create_workspace_def)
next
  case (Some cid)
  show ?thesis
  proof (cases "cid = []")
    case True
    then show ?thesis using assms Some by (simp add: create_workspace_def)
  next
    case False
    obtain r w1 where t: "get_access_token env w = (r, w1)"
      by (cases "get_access_token env w")
    from made_append [OF create_workspace_trace [OF Some False t]] assms Some False
    show ?thesis
      by (cases r) (auto simp: token_request_def upstream_request_def)
  qed
qed

lemma assign_workspace_admin_bodies:
  assumes "rq \<in> set (made w (snd (assign_workspace_admin env workspace_id user_object_id w)))"
    and "rbody rq = JsonData body"
  shows "\<exists>uid. py_or user_object_id (USER_OBJECT_ID (conf env)) = Some uid \<and> uid \<noteq> []
           \<and> body = role_payload uid"
proof (cases "py_or user_object_id (USER_OBJECT_ID (conf env))")
  case None
  then show ?thesis using assms by (simp add: assign_workspace_admin_def)
next
  case (Some uid)
  show ?thesis
  proof (cases "uid = []")
    case True
    then show ?thesis using assms Some by (simp add: assign_workspace_admin_def)
  next
    case False
    obtain r w1 where t: "get_access_token env w = (r, w1)"
      by (cases "get_access_token env w")
    from made_append [OF assign_workspace_admin_trace [OF Some False t]] assms Some False
    show ?thesis
      by (cases r) (auto simp: token_request_def upstream_request_def)
  qed
qed

lemma assign_pipeline_admin_bodies:
  assumes "rq \<in> set (made w (snd (assign_pipeline_admin env pipeline_id user_object_id w)))"
    and "rbody rq = JsonData body"
  shows "\<exists>uid. py_or user_object_id (USER_OBJECT_ID (conf env)) = Some uid \<and> uid \<noteq> []
           \<and> body = role_payload uid"
proof (cases "py_or user_object_id (USER_OBJECT_ID (conf env))")
  case None
  then show ?thesis using assms by (simp add: assign_pipeline_admin_def)
next
  case (Some uid)
  show ?thesis
  proof (cases "uid = []")
    case True
    then show ?thesis using assms Some by (simp add: assign_pipeline_admin_def)
  next
    case False
    obtain r w1 where t: "get_access_token env w = (r, w1)"
      by (cases "get_access_token env w")
    from made_append [OF assign_pipeline_admin_trace [OF Some False t]] assms Some False
    show ?thesis
      by (cases r) (auto simp: token_request_def upstream_request_def)
  qed
qed


text \<open>
  C10. For create workspace, assign workspace admin and assign pipeline admin, the empty
  string as argument gives the same outcome as no argument. When the configured default
  is unset or empty too, the outcome is the missing-value error result and the world is
  untouched. When the configured default is not empty, the handler falls back to it:
  once the token is acquired (and has no carriage return or line feed, which would make
  a refused header), the invocation sends the token request and then the request whose
  body carries the default, and the outcome is the one that the response to that request
  determines. Every JSON body the invocation sends carries the non-empty configured
  default, never the empty string.
\<close>

theorem empty_argument_is_absent:
  "(create_workspace env name (Some []) w = create_workspace env name None w
   \<and> assign_workspace_admin env workspace_id (Some []) w
       = assign_workspace_admin env workspace_id None w
   \<and> assign_pipeline_admin env pipeline_id (Some []) w
       = assign_pipeline_admin env pipeline_id None w)
   \<and> (CAPACITY_ID (conf env) = None \<or> CAPACITY_ID (conf env) = Some [] \<longrightarrow>
        create_workspace env name (Some []) w =
          (Inr (PDict [(PStr ''error'',
             PStr ''capacity_id not provided and CAPACITY_ID missing in .env'')]), w))
   \<and> (USER_OBJECT_ID (conf env) = None \<or> USER_OBJECT_ID (conf env) = Some [] \<longrightarrow>
        assign_workspace_admin env workspace_id (Some []) w =
          (Inr (PDict [(PStr ''error'',
             PStr ''user_object_id not provided and USER_OBJECT_ID missing in .env'')]), w)
        \<and> assign_pipeline_admin env pipeline_id (Some []) w =
          (Inr (PDict [(PStr ''error'',
             PStr ''user_object_id not provided and USER_OBJECT_ID missing in .env'')]), w))
   \<and> (CAPACITY_ID (conf env) = Some d \<and> d \<noteq> [] \<and> get_access_token env w = (Inr tok, w1)
        \<and> CR \<notin> set (py_str env tok) \<and> LF \<notin> set (py_str env tok) \<longrightarrow>
        calls (snd (create_workspace env name (Some []) w)) =
          calls w @
          [token_request (conf env),
           \<lparr>rmethod = POST, rurl = FABRIC_BASE @ ''/workspaces'',
             rheaders = headers env tok,
             rbody = JsonData
               (PDict [(PStr ''displayName'', PStr name), (PStr ''capacityId'', PStr d)])\<rparr>])
   \<and> (CAPACITY_ID (conf env) = Some d \<and> d \<noteq> [] \<and> get_access_token env w = (Inr tok, w1)
        \<and> post_json env (FABRIC_BASE @ ''/workspaces'')
             (PDict [(PStr ''displayName'', PStr name), (PStr ''capacityId'', PStr d)]) tok w1 = (Inr resp, w2) \<longrightarrow>
        (status_code resp \<noteq> 201 \<longrightarrow>
           create_workspace env name (Some []) w =
             (Inr (PDict [(PStr ''status'', PInt (status_code resp)),
                       (PStr ''body'', PStr (resp_text resp))]), w2))
        \<and> (status_code resp = 201 \<and> json_body resp = Some (PDict kvs)
             \<and> map_of kvs (PStr ''id'') = Some i \<longrightarrow>
           create_workspace env name (Some []) w =
             (Inr (PDict [(PStr ''workspace_id'', i)]), w2)))
   \<and> (USER_OBJECT_ID (conf env) = Some u \<and> u \<noteq> [] \<and> get_access_token env w = (Inr tok, w1)
        \<and> CR \<notin> set (py_str env tok) \<and> LF \<notin> set (py_str env tok) \<longrightarrow>
        calls (snd (assign_workspace_admin env workspace_id (Some []) w)) =
          calls w @
          [token_request (conf env),
           \<lparr>rmethod = POST, rurl = FABRIC_BASE @ ''/workspaces/'' @ workspace_id @ ''/roleAssignments'',
             rheaders = headers env tok,
             rbody = JsonData
               (PDict [(PStr ''principal'',
                    PDict [(PStr ''id'', PStr u), (PStr ''type'', PStr ''User'')]),
                  (PStr ''role'', PStr ''Admin'')])\<rparr>]
        \<and> calls (snd (assign_pipeline_admin env pipeline_id (Some []) w)) =
          calls w @
          [token_request (conf env),
           \<lparr>rmethod = POST, rurl = FABRIC_BASE @ ''/deploymentPipelines/'' @ pipeline_id @ ''/roleAssignments'',
             rheaders = headers env tok,
             rbody = JsonData
               (PDict [(PStr ''principal'',
                    PDict [(PStr ''id'', PStr u), (PStr ''type'', PStr ''User'')]),
                  (PStr ''role'', PStr ''Admin'')])\<rparr>])
   \<and> (USER_OBJECT_ID (conf env) = Some u \<and> u \<noteq> [] \<and> get_access_token env w = (Inr tok, w1)
        \<and> post_json env (FABRIC_BASE @ ''/workspaces/'' @ workspace_id @ ''/roleAssignments'')
             (PDict [(PStr ''principal'',
                    PDict [(PStr ''id'', PStr u), (PStr ''type'', PStr ''User'')]),
                  (PStr ''role'', PStr ''Admin'')]) tok w1 = (Inr resp, w2) \<longrightarrow>
        assign_workspace_admin env workspace_id (Some []) w =
          (Inr (PDict [(PStr ''status'', PInt (status_code resp)),
                       (PStr ''body'', PStr (resp_text resp))]), w2))
   \<and> (USER_OBJECT_ID (conf env) = Some u \<and> u \<noteq> [] \<and> get_access_token env w = (Inr tok, w1)
        \<and> post_json env (FABRIC_BASE @ ''/deploymentPipelines/'' @ pipeline_id @ ''/roleAssignments'')
             (PDict [(PStr ''principal'',
                    PDict [(PStr ''id'', PStr u), (PStr ''type'', PStr ''User'')]),
                  (PStr ''role'', PStr ''Admin'')]) tok w1 = (Inr resp, w2) \<longrightarrow>
        assign_pipeline_admin env pipeline_id (Some []) w =
          (Inr (PDict [(PStr ''status'', PInt (status_code resp)),
                       (PStr ''body'', PStr (resp_text resp))]), w2))
   \<and> (rq \<in> set (made w (snd (create_workspace env name (Some []) w)))
        \<and> rbody rq = JsonData body \<longrightarrow>
        (\<exists>d. CAPACITY_ID (conf env) = Some d \<and> d \<noteq> []
           \<and> body = PDict [(PStr ''displayName'', PStr name), (PStr ''capacityId'', PStr d)]))
   \<and> ((rq \<in> set (made w (snd (assign_workspace_admin env workspace_id (Some []) w)))
         \<or> rq \<in> set (made w (snd (assign_pipeline_admin env pipeline_id (Some []) w))))
        \<and> rbody rq = JsonData body \<longrightarrow>
        (\<exists>d. USER_OBJECT_ID (conf env) = Some d \<and> d \<noteq> []
           \<and> body = PDict [(PStr ''principal'',
                             PDict [(PStr ''id'', PStr d), (PStr ''type'', PStr ''User'')]),
                           (PStr ''role'', PStr ''Admin'')]))"
proof -
  have eq: "create_workspace env name (Some []) w = create_workspace env name None w
   \<and> assign_workspace_admin env workspace_id (Some []) w
       = assign_workspace_admin env workspace_id None w
   \<and> assign_pipeline_admin env pipeline_id (Some []) w
       = assign_pipeline_admin env pipeline_id None w"
    by (simp add: create_workspace_def assign_workspace_admin_def assign_pipeline_admin_def
        py_or_defaulted)
  have errc: "CAPACITY_ID (conf env) = None \<or> CAPACITY_ID (conf env) = Some [] \<longrightarrow>
        create_workspace env name (Some []) w =
          (Inr (PDict [(PStr ''error'',
             PStr ''capacity_id not provided and CAPACITY_ID missing in .env'')]), w)"
    by (auto simp: create_workspace_def py_or_defaulted)
  have erru: "USER_OBJECT_ID (conf env) = None \<or> USER_OBJECT_ID (conf env) = Some [] \<longrightarrow>
        assign_workspace_admin env workspace_id (Some []) w =
          (Inr (PDict [(PStr ''error'',
             PStr ''user_object_id not provided and USER_OBJECT_ID missing in .env'')]), w)
        \<and> assign_pipeline_admin env pipeline_id (Some []) w =
          (Inr (PDict [(PStr ''error'',
             PStr ''user_object_id not provided and USER_OBJECT_ID missing in .env'')]), w)"
    by (auto simp: assign_workspace_admin_def assign_pipeline_admin_def py_or_defaulted)
  have callc: "CAPACITY_ID (conf env) = Some d \<and> d \<noteq> [] \<and> get_access_token env w = (Inr tok, w1)
        \<and> CR \<notin> set (py_str env tok) \<and> LF \<notin> set (py_str env tok) \<longrightarrow>
        calls (snd (create_workspace env name (Some []) w)) =
          calls w @
          [token_request (conf env),
           \<lparr>rmethod = POST, rurl = FABRIC_BASE @ ''/workspaces'',
             rheaders = headers env tok,
             rbody = JsonData
               (PDict [(PStr ''displayName'', PStr name), (PStr ''capacityId'', PStr d)])\<rparr>]"
    using create_workspace_trace [of "Some []" env d w "Inr tok" w1 name]
    by (auto simp: py_or_defaulted refusal_none upstream_request_def workspace_payload_def)
  have resc: "CAPACITY_ID (conf env) = Some d \<and> d \<noteq> [] \<and> get_access_token env w = (Inr tok, w1)
        \<and> post_json env (FABRIC_BASE @ ''/workspaces'')
             (PDict [(PStr ''displayName'', PStr name), (PStr ''capacityId'', PStr d)]) tok w1 = (Inr resp, w2) \<longrightarrow>
        (status_code resp \<noteq> 201 \<longrightarrow>
           create_workspace env name (Some []) w =
             (Inr (PDict [(PStr ''status'', PInt (status_code resp)),
                       (PStr ''body'', PStr (resp_text resp))]), w2))
        \<and> (status_code resp = 201 \<and> json_body resp = Some (PDict kvs)
             \<and> map_of kvs (PStr ''id'') = Some i \<longrightarrow>
           create_workspace env name (Some []) w =
             (Inr (PDict [(PStr ''workspace_id'', i)]), w2))"
    using create_workspace_result [of "Some []" env d w tok w1 name resp w2]
    by (auto simp: py_or_defaulted workspace_payload_def workspace_result_def status_body_def
        py_get_def)
  have calla: "USER_OBJECT_ID (conf env) = Some u \<and> u \<noteq> [] \<and> get_access_token env w = (Inr tok, w1)
        \<and> CR \<notin> set (py_str env tok) \<and> LF \<notin> set (py_str env tok) \<longrightarrow>
        calls (snd (assign_workspace_admin env workspace_id (Some []) w)) =
          calls w @
          [token_request (conf env),
           \<lparr>rmethod = POST, rurl = FABRIC_BASE @ ''/workspaces/'' @ workspace_id @ ''/roleAssignments'',
             rheaders = headers env tok,
             rbody = JsonData
               (PDict [(PStr ''principal'',
                    PDict [(PStr ''id'', PStr u), (PStr ''type'', PStr ''User'')]),
                  (PStr ''role'', PStr ''Admin'')])\<rparr>]
        \<and> calls (snd (assign_pipeline_admin env pipeline_id (Some []) w)) =
          calls w @
          [token_request (conf env),
           \<lparr>rmethod = POST, rurl = FABRIC_BASE @ ''/deploymentPipelines/'' @ pipeline_id @ ''/roleAssignments'',
             rheaders = headers env tok,
             rbody = JsonData
               (PDict [(PStr ''principal'',
                    PDict [(PStr ''id'', PStr u), (PStr ''type'', PStr ''User'')]),
                  (PStr ''role'', PStr ''Admin'')])\<rparr>]"
    using assign_workspace_admin_trace [of "Some []" env u w "Inr tok" w1 workspace_id]
      assign_pipeline_admin_trace [of "Some []" env u w "Inr tok" w1 pipeline_id]
    by (auto simp: py_or_defaulted refusal_none upstream_request_def role_payload_def)
  have resa: "USER_OBJECT_ID (conf env) = Some u \<and> u \<noteq> [] \<and> get_access_token env w = (Inr tok, w1)
        \<and> post_json env (FABRIC_BASE @ ''/workspaces/'' @ workspace_id @ ''/roleAssignments'')
             (PDict [(PStr ''principal'',
                    PDict [(PStr ''id'', PStr u), (PStr ''type'', PStr ''User'')]),
                  (PStr ''role'', PStr ''Admin'')]) tok w1 = (Inr resp, w2) \<longrightarrow>
        assign_workspace_admin env workspace_id (Some []) w =
          (Inr (PDict [(PStr ''status'', PInt (status_code resp)),
                       (PStr ''body'', PStr (resp_text resp))]), w2)"
    using assign_workspace_admin_result [of "Some []" env u w tok w1 workspace_id resp w2]
    by (auto simp: py_or_defaulted role_payload_def status_body_def)
  have resp: "USER_OBJECT_ID (conf env) = Some u \<and> u \<noteq> [] \<and> get_access_token env w = (Inr tok, w1)
        \<and> post_json env (FABRIC_BASE @ ''/deploymentPipelines/'' @ pipeline_id @ ''/roleAssignments'')
             (PDict [(PStr ''principal'',
                    PDict [(PStr ''id'', PStr u), (PStr ''type'', PStr ''User'')]),
                  (PStr ''role'', PStr ''Admin'')]) tok w1 = (Inr resp, w2) \<longrightarrow>
        assign_pipeline_admin env pipeline_id (Some []) w =
          (Inr (PDict [(PStr ''status'', PInt (status_code resp)),
                       (PStr ''body'', PStr (resp_text resp))]), w2)"
    using assign_pipeline_admin_result [of "Some []" env u w tok w1 pipeline_id resp w2]
    by (auto simp: py_or_defaulted role_payload_def status_body_def)
  have bodc: "rq \<in> set (made w (snd (create_workspace env name (Some []) w)))
        \<and> rbody rq = JsonData body \<longrightarrow>
        (\<exists>d. CAPACITY_ID (conf env) = Some d \<and> d \<noteq> []
           \<and> body = PDict [(PStr ''displayName'', PStr name), (PStr ''capacityId'', PStr d)])"
    using create_workspace_bodies [of rq w env name "Some []" body]
    by (simp add: py_or_defaulted workspace_payload_def)
  have boda: "(rq \<in> set (made w (snd (assign_workspace_admin env workspace_id (Some []) w)))
         \<or> rq \<in> set (made w (snd (assign_pipeline_admin env pipeline_id (Some []) w))))
        \<and> rbody rq = JsonData body \<longrightarrow>
        (\<exists>d. USER_OBJECT_ID (conf env) = Some d \<and> d \<noteq> []
           \<and> body = PDict [(PStr ''principal'',
                             PDict [(PStr ''id'', PStr d), (PStr ''type'', PStr ''User'')]),
                           (PStr ''role'', PStr ''Admin'')])"
    using assign_workspace_admin_bodies [of rq w env workspace_id "Some []" body]
      assign_pipeline_admin_bodies [of rq w env pipeline_id "Some []" body]
    by (auto simp: py_or_defaulted role_payload_def)
  from eq errc erru callc resc calla resa resp bodc boda show ?thesis by blast
qed

text \<open>
  The theorem at a configuration without defaults, and at one whose defaults are
  \<open>cap-9\<close> and \<open>user-3\<close>: after an empty argument each of the three handlers sends
  the request that carries the default and returns what the response determines.
\<close>

theorem empty_argument_is_absent_witness:
  \<open>create_workspace (demo_env demo_conf) ''Sales'' (Some []) (start [token_ok]) =
        (Inr (PDict [(PStr ''error'',
           PStr ''capacity_id not provided and CAPACITY_ID missing in .env'')]), start [token_ok])
   \<and> calls (snd (create_workspace (demo_env with_capacity) ''Sales'' (Some [])
                   (start [token_ok, created_ws]))) =
       [token_request with_capacity,
        \<lparr>rmethod = POST, rurl = FABRIC_BASE @ ''/workspaces'',
         rheaders = headers (demo_env with_capacity) (PStr ''tok-1''),
         rbody = JsonData (PDict [(PStr ''displayName'', PStr ''Sales''),
                                  (PStr ''capacityId'', PStr ''cap-9'')])\<rparr>]
   \<and> fst (create_workspace (demo_env with_capacity) ''Sales'' (Some [])
            (start [token_ok, created_ws])) =
       Inr (PDict [(PStr ''workspace_id'', PStr ''ws-42'')])
   \<and> calls (snd (assign_workspace_admin (demo_env with_capacity) ''ws-42'' (Some [])
                   (start [token_ok, role_assigned]))) =
       [token_request with_capacity,
        \<lparr>rmethod = POST, rurl = FABRIC_BASE @ ''/workspaces/'' @ ''ws-42'' @ ''/roleAssignments'',
         rheaders = headers (demo_env with_capacity) (PStr ''tok-1''),
         rbody = JsonData
           (PDict [(PStr ''principal'',
                    PDict [(PStr ''id'', PStr ''user-3''), (PStr ''type'', PStr ''User'')]),
                   (PStr ''role'', PStr ''Admin'')])\<rparr>]
   \<and> fst (assign_workspace_admin (demo_env with_capacity) ''ws-42'' (Some [])
            (start [token_ok, role_assigned])) =
       Inr (PDict [(PStr ''status'', PInt 201),
                   (PStr ''body'', PStr ''{"id": "user-3", "role": "Admin"}'')])
   \<and> calls (snd (assign_pipeline_admin (demo_env with_capacity) ''pl-1'' (Some [])
                   (start [token_ok, role_assigned]))) =
       [token_request with_capacity,
        \<lparr>rmethod = POST,
         rurl = FABRIC_BASE @ ''/deploymentPipelines/'' @ ''pl-1'' @ ''/roleAssignments'',
         rheaders = headers (demo_env with_capacity) (PStr ''tok-1''),
         rbody = JsonData
           (PDict [(PStr ''principal'',
                    PDict [(PStr ''id'', PStr ''user-3''), (PStr ''type'', PStr ''User'')]),
                   (PStr ''role'', PStr ''Admin'')])\<rparr>]
   \<and> fst (assign_pipeline_admin (demo_env with_capacity) ''pl-1'' (Some [])
            (start [token_ok, role_assigned])) =
       Inr (PDict [(PStr ''status'', PInt 201),
                   (PStr ''body'', PStr ''{"id": "user-3", "role": "Admin"}'')])\<close>
proof -
  let ?E = "demo_env with_capacity"
  let ?t = "PStr ''tok-1''"
  let ?wa = "start [token_ok, created_ws]"
  let ?wb = "start [token_ok, role_assigned]"
  let ?wa1 = "snd (get_access_token ?E ?wa)"
  let ?wb1 = "snd (get_access_token ?E ?wb)"
  let ?role = "PDict [(PStr ''principal'',
                    PDict [(PStr ''id'', PStr ''user-3''), (PStr ''type'', PStr ''User'')]),
                   (PStr ''role'', PStr ''Admin'')]"
  let ?ua = "FABRIC_BASE @ ''/workspaces''"
  let ?ub = "FABRIC_BASE @ ''/workspaces/'' @ ''ws-42'' @ ''/roleAssignments''"
  let ?uc = "FABRIC_BASE @ ''/deploymentPipelines/'' @ ''pl-1'' @ ''/roleAssignments''"
  let ?pa = "post_json ?E ?ua
               (PDict [(PStr ''displayName'', PStr ''Sales''), (PStr ''capacityId'', PStr ''cap-9'')])
               ?t ?wa1"
  let ?pb = "post_json ?E ?ub ?role ?t ?wb1"
  let ?pc = "post_json ?E ?uc ?role ?t ?wb1"
  let ?Ra = "created_ws\<lparr>url := ?ua\<rparr>"
  let ?Rb = "role_assigned\<lparr>url := ?ub\<rparr>"
  let ?Rc = "role_assigned\<lparr>url := ?uc\<rparr>"
  let ?kvs = "[(PStr ''id'', PStr ''ws-42''), (PStr ''displayName'', PStr ''Sales'')]"
  have n: "CAPACITY_ID (conf (demo_env demo_conf)) = None"
    by (simp add: demo_env_def demo_conf_def)
  have c: "CAPACITY_ID (conf ?E) = Some ''cap-9''" "USER_OBJECT_ID (conf ?E) = Some ''user-3''"
    "conf ?E = with_capacity"
    by (simp_all add: demo_env_def with_capacity_def)
  have ne: "''cap-9'' \<noteq> []" "''user-3'' \<noteq> []" by simp_all
  have ta: "get_access_token ?E ?wa = (Inr ?t, ?wa1)"
    and tb: "get_access_token ?E ?wb = (Inr ?t, ?wb1)"
    by (simp_all add: prod_eq_iff demo_defs handler_defs with_capacity_def)
  have pl: "CR \<notin> set (py_str ?E ?t)" "LF \<notin> set (py_str ?E ?t)"
    by (simp_all add: py_str_def CR_def LF_def)
  have "fst ?pa = Inr ?Ra" "fst ?pb = Inr ?Rb" "fst ?pc = Inr ?Rc"
    by (simp_all add: demo_defs handler_defs with_capacity_def)
  then have pa: "?pa = (Inr ?Ra, snd ?pa)" and pb: "?pb = (Inr ?Rb, snd ?pb)"
    and pc: "?pc = (Inr ?Rc, snd ?pc)"
    by (simp_all add: prod_eq_iff)
  have ra: "status_code ?Ra = 201" "json_body ?Ra = Some (PDict ?kvs)"
    "map_of ?kvs (PStr ''id'') = Some (PStr ''ws-42'')"
    by (simp_all add: created_ws_def reply_def)
  have rb: "status_code role_assigned = 201"
    \<open>resp_text role_assigned = ''{"id": "user-3", "role": "Admin"}''\<close>
    by (simp_all add: role_assigned_def reply_def)
  have s: "calls ?wa = []" "calls ?wb = []" by (simp_all add: start_def)
  from empty_argument_is_absent [of "demo_env demo_conf" "''Sales''" "start [token_ok]"] n
  have A: "create_workspace (demo_env demo_conf) ''Sales'' (Some []) (start [token_ok]) =
        (Inr (PDict [(PStr ''error'',
           PStr ''capacity_id not provided and CAPACITY_ID missing in .env'')]), start [token_ok])"
    by blast
  note Ta = empty_argument_is_absent [where env = ?E and name = "''Sales''" and w = ?wa
      and d = "''cap-9''" and tok = ?t and ?w1.0 = ?wa1 and resp = ?Ra and ?w2.0 = "snd ?pa"
      and kvs = ?kvs and i = "PStr ''ws-42''"]
  from Ta c(1) ne(1) ta pl
  have B1: "calls (snd (create_workspace ?E ''Sales'' (Some []) ?wa)) =
          calls ?wa @
          [token_request (conf ?E),
           \<lparr>rmethod = POST, rurl = ?ua, rheaders = headers ?E ?t,
            rbody = JsonData (PDict [(PStr ''displayName'', PStr ''Sales''),
                                     (PStr ''capacityId'', PStr ''cap-9'')])\<rparr>]"
    by blast
  from Ta c(1) ne(1) ta pa ra
  have "create_workspace ?E ''Sales'' (Some []) ?wa =
          (Inr (PDict [(PStr ''workspace_id'', PStr ''ws-42'')]), snd ?pa)"
    by blast
  then have B2: "fst (create_workspace ?E ''Sales'' (Some []) ?wa) =
          Inr (PDict [(PStr ''workspace_id'', PStr ''ws-42'')])"
    by simp
  note Tb = empty_argument_is_absent [where env = ?E and workspace_id = "''ws-42''"
      and pipeline_id = "''pl-1''" and w = ?wb and u = "''user-3''" and tok = ?t
      and ?w1.0 = ?wb1 and resp = ?Rb and ?w2.0 = "snd ?pb"]
  from Tb c(2) ne(2) tb pl
  have C1: "calls (snd (assign_workspace_admin ?E ''ws-42'' (Some []) ?wb)) =
          calls ?wb @
          [token_request (conf ?E),
           \<lparr>rmethod = POST, rurl = ?ub, rheaders = headers ?E ?t, rbody = JsonData ?role\<rparr>]"
    and D1: "calls (snd (assign_pipeline_admin ?E ''pl-1'' (Some []) ?wb)) =
          calls ?wb @
          [token_request (conf ?E),
           \<lparr>rmethod = POST, rurl = ?uc, rheaders = headers ?E ?t, rbody = JsonData ?role\<rparr>]"
    by blast+
  from Tb c(2) ne(2) tb pb
  have "assign_workspace_admin ?E ''ws-42'' (Some []) ?wb =
          (Inr (PDict [(PStr ''status'', PInt (status_code ?Rb)),
                       (PStr ''body'', PStr (resp_text ?Rb))]), snd ?pb)"
    by blast
  then have C2: \<open>fst (assign_workspace_admin ?E ''ws-42'' (Some []) ?wb) =
       Inr (PDict [(PStr ''status'', PInt 201),
                   (PStr ''body'', PStr ''{"id": "user-3", "role": "Admin"}'')])\<close>
    by (simp add: rb)
  note Tc = empty_argument_is_absent [where env = ?E and workspace_id = "''ws-42''"
      and pipeline_id = "''pl-1''" and w = ?wb and u = "''user-3''" and tok = ?t
      and ?w1.0 = ?wb1 and resp = ?Rc and ?w2.0 = "snd ?pc"]
  from Tc c(2) ne(2) tb pc
  have "assign_pipeline_admin ?E ''pl-1'' (Some []) ?wb =
          (Inr (PDict [(PStr ''status'', PInt (status_code ?Rc)),
                       (PStr ''body'', PStr (resp_text ?Rc))]), snd ?pc)"
    by blast
  then have D2: \<open>fst (assign_pipeline_admin ?E ''pl-1'' (Some []) ?wb) =
       Inr (PDict [(PStr ''status'', PInt 201),
                   (PStr ''body'', PStr ''{"id": "user-3", "role": "Admin"}'')])\<close>
    by (simp add: rb)
  from A B1 B2 C1 C2 D1 D2 show ?thesis
    by (simp only: s c(3) append_Nil)
qed

section \<open>Order and number of network calls\<close>






end
